theory Spec2Isabelle
  imports Main
begin

section \<open>Data model of \<open>src/Launcher.ts\<close>\<close>

text \<open>
  \<open>ServiceOptions\<close>: every property of the TypeScript interface is optional, so every
  field is an option; \<open>None\<close> is JavaScript's \<open>undefined\<close> (what reading an absent
  property yields). Port numbers are natural numbers.
\<close>

record ServiceOptions =
  pathToBrowsersConfig :: "string option"
  terminateWdioOnError :: "bool option"
  selenoidVersion :: "string option"
  skipAutoPullImage :: "bool option"
  selenoidContainerName :: "string option"
  selenoidUiContainerName :: "string option"
  selenoidUiVersion :: "string option"
  port :: "nat option"
  selenoidPort :: "nat option"
  dockerArgs :: "string list option"
  selenoidUiArgs :: "string list option"
  selenoidArgs :: "string list option"
  skipAutoPullImages :: "bool option"

text \<open>
  \<open>BrowserConfig\<close>: an object is the list of its entries in the order
  \<open>Object.entries\<close> enumerates them. The fields \<open>default\<close>, \<open>port\<close> and \<open>path\<close>
  of the source are renamed, their names being taken.
\<close>

record VersionConfig =
  image :: string
  image_port :: nat
  image_path :: string

record BrowserEntry =
  default_version :: string
  versions :: "(string \<times> VersionConfig) list"

type_synonym BrowserConfig = "(string \<times> BrowserEntry) list"

datatype level = LogDebug | LogInfo | LogError

text \<open>
  What the service does to the outside, in order: a line handed to the logger, a
  \<open>docker\<close> command handed to \<open>execa\<close> (its argument array; an argument read from an
  unset option is \<open>None\<close>), a \<open>sleep\<close> of so many milliseconds.
\<close>

datatype event = Log level string | Exec "string option list" | Sleep nat

datatype error = ExecaError string | RequireError string | TypeError string
  | SevereServiceError string

text \<open>The text of an error inside a template string or a log line.\<close>

fun error_text :: "error \<Rightarrow> string" where
  "error_text (ExecaError m) = m"
| "error_text (RequireError m) = m"
| "error_text (TypeError m) = m"
| "error_text (SevereServiceError m) = m"

text \<open>
  The collaborators the file imports, as parameters: \<open>process.platform\<close>,
  \<open>process.cwd()\<close>, \<open>path.join\<close> and \<open>path.dirname\<close> of the host's \<open>path\<close> module,
  \<open>fs.pathExists\<close>, \<open>require\<close> of the browsers file and \<open>execa('docker', args)\<close>.
  \<open>require\<close> gives \<open>Inl\<close> when it throws, and also when what it loads has not the shape
  of a \<open>BrowserConfig\<close>: the two \<open>forEach\<close> then throw in the same \<open>try\<close>, before any
  command. The answer of \<open>execa\<close> may depend on everything that happened before the call
  (the events so far); \<open>Inl\<close> is the text of the error it rejects with, \<open>Inr\<close> the
  captured standard output.
\<close>

record env =
  platform :: string
  cwd :: string
  path_join :: "string \<Rightarrow> string \<Rightarrow> string"
  path_dirname :: "string \<Rightarrow> string"
  pathExists :: "string \<Rightarrow> bool"
  require :: "string \<Rightarrow> string + BrowserConfig"
  execa :: "event list \<Rightarrow> string option list \<Rightarrow> string + string"

text \<open>The private fields of \<open>SelenoidStandaloneService\<close> (the logger apart).\<close>

record service =
  options :: ServiceOptions
  dockerSocketPath :: string
  selenoidBrowsersConfigPath :: string

text \<open>The object itself and the events so far.\<close>

record state =
  self :: service
  trace :: "event list"

text \<open>
  An async function resolves with a value (\<open>Inr\<close>) or rejects with an error (\<open>Inl\<close>). The
  ones typed \<open>Promise<string>\<close> resolve with the command's output or, from their
  \<open>catch\<close>, with the error object itself.
\<close>

datatype resolved = Output string | Caught error

type_synonym 'a promise = "state \<Rightarrow> (error + 'a) \<times> state"

section \<open>JavaScript primitives\<close>

definition newline :: char where
  "newline = CHR 0x0A"

definition backslash :: char where
  "backslash = CHR 0x5C"

text \<open>\<open>s.split('\n')\<close>: never empty, one more piece than there are newlines.\<close>

fun split_nl :: "string \<Rightarrow> string list" where
  "split_nl [] = [[]]"
| "split_nl (c # cs) =
     (if c = newline then [] # split_nl cs
      else (case split_nl cs of [] \<Rightarrow> [[c]] | r # rs \<Rightarrow> (c # r) # rs))"

text \<open>\<open>s.replace(a, b)\<close> with a string pattern: the first occurrence only.\<close>

fun replace_first :: "char \<Rightarrow> char \<Rightarrow> string \<Rightarrow> string" where
  "replace_first a b [] = []"
| "replace_first a b (c # cs) = (if c = a then b # cs else c # replace_first a b cs)"

text \<open>\<open>s.replace(/\\/g, '/')\<close>: every occurrence.\<close>

definition replace_backslashes :: "string \<Rightarrow> string" where
  "replace_backslashes s = map (\<lambda>c. if c = backslash then CHR ''/'' else c) s"

text \<open>A value inside a template string: \<open>undefined\<close> prints as its name.\<close>

fun template :: "string option \<Rightarrow> string" where
  "template None = ''undefined''"
| "template (Some s) = s"

fun string_of_nat :: "nat \<Rightarrow> string" where
  "string_of_nat n =
     (if n < 10 then [''0123456789'' ! n]
      else string_of_nat (n div 10) @ [''0123456789'' ! (n mod 10)])"

declare string_of_nat.simps [simp del]

fun template_num :: "nat option \<Rightarrow> string" where
  "template_num None = ''undefined''"
| "template_num (Some n) = string_of_nat n"

text \<open>\<open>xs || []\<close>\<close>

fun or_empty :: "string list option \<Rightarrow> string list" where
  "or_empty None = []"
| "or_empty (Some xs) = xs"

text \<open>Truthiness of an optional boolean: \<open>undefined\<close> and \<open>false\<close> are falsy.\<close>

fun truthy :: "bool option \<Rightarrow> bool" where
  "truthy (Some True) = True"
| "truthy _ = False"

section \<open>Effects\<close>

definition emit :: "event list \<Rightarrow> state \<Rightarrow> state" where
  "emit es s = s\<lparr>trace := trace s @ es\<rparr>"

definition log_debug :: "string \<Rightarrow> state \<Rightarrow> state" where
  "log_debug m = emit [Log LogDebug m]"

definition log_info :: "string \<Rightarrow> state \<Rightarrow> state" where
  "log_info m = emit [Log LogInfo m]"

definition log_error :: "string \<Rightarrow> state \<Rightarrow> state" where
  "log_error m = emit [Log LogError m]"

text \<open>\<open>await execa('docker', args)\<close>: the answer to the events so far, then the event.\<close>

definition docker :: "env \<Rightarrow> string option list \<Rightarrow> state \<Rightarrow> (string + string) \<times> state" where
  "docker w args s = (execa w (trace s) args, emit [Exec args] s)"

definition sleep :: "nat \<Rightarrow> state \<Rightarrow> state" where
  "sleep timeout = emit [Sleep timeout]"

text \<open>The events a computation adds to the ones before it.\<close>

definition emitted :: "(state \<Rightarrow> 'r \<times> state) \<Rightarrow> state \<Rightarrow> event list" where
  "emitted m s = drop (length (trace s)) (trace (snd (m s)))"

section \<open>The constructor\<close>

definition defaults :: ServiceOptions where
  "defaults = \<lparr>
     pathToBrowsersConfig = Some ''./browsers.json'',
     terminateWdioOnError = Some True,
     selenoidVersion = Some ''latest-release'',
     skipAutoPullImage = Some False,
     selenoidContainerName = Some ''wdio_selenoid'',
     selenoidUiContainerName = Some ''wdio_selenoidui'',
     selenoidUiVersion = Some ''latest-release'',
     port = Some 8080,
     selenoidPort = Some 4444,
     dockerArgs = None,
     selenoidUiArgs = None,
     selenoidArgs = None,
     skipAutoPullImages = None \<rparr>"

text \<open>
  One property of \<open>{ ...d, ...serviceOptions }\<close>: the value given wins, the default
  stands where the property is absent from \<open>serviceOptions\<close>. (An options object that
  carries a key with the value \<open>undefined\<close> is not represented on the input side;
  the operations below are defined for every value of every field all the same.)
\<close>

fun over :: "'a option \<Rightarrow> 'a option \<Rightarrow> 'a option" where
  "over d None = d"
| "over d (Some v) = Some v"

definition spread :: "ServiceOptions \<Rightarrow> ServiceOptions \<Rightarrow> ServiceOptions" where
  "spread d serviceOptions = \<lparr>
     pathToBrowsersConfig = over (pathToBrowsersConfig d) (pathToBrowsersConfig serviceOptions),
     terminateWdioOnError = over (terminateWdioOnError d) (terminateWdioOnError serviceOptions),
     selenoidVersion = over (selenoidVersion d) (selenoidVersion serviceOptions),
     skipAutoPullImage = over (skipAutoPullImage d) (skipAutoPullImage serviceOptions),
     selenoidContainerName = over (selenoidContainerName d) (selenoidContainerName serviceOptions),
     selenoidUiContainerName =
       over (selenoidUiContainerName d) (selenoidUiContainerName serviceOptions),
     selenoidUiVersion = over (selenoidUiVersion d) (selenoidUiVersion serviceOptions),
     port = over (port d) (port serviceOptions),
     selenoidPort = over (selenoidPort d) (selenoidPort serviceOptions),
     dockerArgs = over (dockerArgs d) (dockerArgs serviceOptions),
     selenoidUiArgs = over (selenoidUiArgs d) (selenoidUiArgs serviceOptions),
     selenoidArgs = over (selenoidArgs d) (selenoidArgs serviceOptions),
     skipAutoPullImages = over (skipAutoPullImages d) (skipAutoPullImages serviceOptions) \<rparr>"

text \<open>
  \<open>path.join\<close> throws a \<open>TypeError\<close> on an argument that is not a string; the cast
  \<open>as string\<close> does nothing at run time.
\<close>

definition constructor :: "env \<Rightarrow> ServiceOptions \<Rightarrow> error + service" where
  "constructor w serviceOptions =
     (let opts = spread defaults serviceOptions in
      case pathToBrowsersConfig opts of
        None \<Rightarrow> Inl (TypeError ''The path argument must be of type string'')
      | Some p \<Rightarrow>
          if platform w = ''win32'' then
            (let rawBrowserPath = path_join w (cwd w) p in
             Inr \<lparr> options = opts,
                   dockerSocketPath = ''//var/run/docker.sock'',
                   selenoidBrowsersConfigPath =
                     replace_backslashes (replace_first CHR ''C'' CHR ''c'' rawBrowserPath) \<rparr>)
          else
            Inr \<lparr> options = opts,
                  dockerSocketPath = ''/var/run/docker.sock'',
                  selenoidBrowsersConfigPath = path_join w (cwd w) p \<rparr>)"

section \<open>The operations of the service\<close>

definition stopSelenoid :: "env \<Rightarrow> resolved promise" where
  "stopSelenoid w s =
     (let s1 = log_info ''Stopping any running selenoid containers'' s in
      case docker w [Some ''rm'', Some ''-f'', selenoidContainerName (options (self s1))] s1 of
        (Inr stdout, s2) \<Rightarrow> (Inr (Output stdout), s2)
      | (Inl error, s2) \<Rightarrow> (Inr (Caught (ExecaError error)), s2))"

definition startArgs :: "env \<Rightarrow> service \<Rightarrow> string option list" where
  "startArgs w this =
     [Some ''run'',
      Some ''-d'',
      Some ''--name'',
      selenoidContainerName (options this),
      Some ''-p'',
      Some ''4444:4444'',
      Some ''-v'',
      Some (dockerSocketPath this @ '':/var/run/docker.sock''),
      Some ''-v'',
      Some (path_dirname w (selenoidBrowsersConfigPath this) @ ''/:/etc/selenoid/:ro'')]
     @ map Some (or_empty (dockerArgs (options this)))
     @ [Some (''aerokube/selenoid:'' @ template (selenoidVersion (options this)))]
     @ map Some (or_empty (selenoidArgs (options this)))"

definition startSelenoid :: "env \<Rightarrow> resolved promise" where
  "startSelenoid w s =
     (let s1 = log_info ''Starting Selenoid Container'' s in
      case docker w (startArgs w (self s1)) s1 of
        (Inr stdout, s2) \<Rightarrow> (Inr (Output stdout), s2)
      | (Inl error, s2) \<Rightarrow>
          if terminateWdioOnError (options (self s2)) = Some True
          then (Inl (SevereServiceError
                  (''Unable to start selenoid container '' @ [newline] @ error)), s2)
          else (Inr (Caught (ExecaError error)), s2))"

definition verifySelenoidBrowserConfig :: "env \<Rightarrow> unit promise" where
  "verifySelenoidBrowserConfig w s =
     (let filePath = pathExists w (selenoidBrowsersConfigPath (self s)) in
      if \<not> filePath then
        (let s1 = log_error
                    (''Unable to find browsers.json at '' @ selenoidBrowsersConfigPath (self s)) s
         in if terminateWdioOnError (options (self s1)) = Some True
            then (Inl (SevereServiceError
                    (''Unable to find browsers.json at ''
                       @ selenoidBrowsersConfigPath (self s1))), s1)
            else (Inr (), s1))
      else (Inr (), s))"

definition doesImageExist :: "env \<Rightarrow> string \<Rightarrow> bool promise" where
  "doesImageExist w imageName s =
     (let s1 = log_debug (''Checking image '' @ imageName @ '' exists'') s in
      case docker w [Some ''image'', Some ''ls'', Some ''-f'', Some (''reference='' @ imageName)] s1 of
        (Inr stdout, s2) \<Rightarrow>
          (let results = split_nl stdout in (Inr (length results \<ge> 2), s2))
      | (Inl error, s2) \<Rightarrow> (Inr True, log_error error s2))"

text \<open>The two nested \<open>forEach\<close> of \<open>pullRequiredBrowserFiles\<close>.\<close>

definition browserImages :: "BrowserConfig \<Rightarrow> string list" where
  "browserImages selenoidConfig =
     concat (map (\<lambda>(_, browserConfig).
                    map (\<lambda>(_, versionConfig). image versionConfig) (versions browserConfig))
             selenoidConfig)"

text \<open>Its \<open>for ... of\<close> loop; a rejected \<open>await\<close> leaves the loop for the \<open>catch\<close>.\<close>

fun pull_each :: "env \<Rightarrow> string list \<Rightarrow> unit promise" where
  "pull_each w [] s = (Inr (), s)"
| "pull_each w (img # imgs) s =
     (case doesImageExist w img s of
        (Inl e, s1) \<Rightarrow> (Inl e, s1)
      | (Inr found, s1) \<Rightarrow>
          if found then
            pull_each w imgs
              (log_info (''Skipping pull. Image: '' @ img @ '' already exists'') s1)
          else
            (case docker w [Some ''pull'', Some img] (log_info (''Pulling image '' @ img) s1) of
               (Inl error, s2) \<Rightarrow> (Inl (ExecaError error), s2)
             | (Inr _, s2) \<Rightarrow> pull_each w imgs s2))"

definition pullRequiredBrowserFiles :: "env \<Rightarrow> unit promise" where
  "pullRequiredBrowserFiles w s =
     (case (case require w (selenoidBrowsersConfigPath (self s)) of
              Inl error \<Rightarrow> (Inl (RequireError error), s)
            | Inr selenoidConfig \<Rightarrow> pull_each w (browserImages selenoidConfig) s) of
        (Inl error, s1) \<Rightarrow> (Inr (), log_error (error_text error) s1)
      | (Inr _, s1) \<Rightarrow> (Inr (), s1))"

definition pullRequiredSelenoidVersion :: "env \<Rightarrow> unit promise" where
  "pullRequiredSelenoidVersion w s =
     (let img = ''aerokube/selenoid:'' @ template (selenoidVersion (options (self s))) in
      case doesImageExist w img s of
        (Inl e, s1) \<Rightarrow> (Inl e, s1)
      | (Inr found, s1) \<Rightarrow>
          if found then
            (Inr (), log_info (''Skipping pull.  Image '' @ img @ '' already exists'') s1)
          else
            (let s2 = log_info
                        (''Pulling selenoid image '' @ [CHR 0x27] @ ''aerokube/selenoid:''
                           @ template (selenoidVersion (options (self s1))) @ [CHR 0x27]) s1
             in case docker w
                       [Some ''pull'',
                        Some (''aerokube/selenoid:''
                                @ template (selenoidVersion (options (self s2))))] s2 of
                  (Inl error, s3) \<Rightarrow> (Inr (), log_error error s3)
                | (Inr _, s3) \<Rightarrow> (Inr (), s3)))"

definition stopSelenoidUi :: "env \<Rightarrow> resolved promise" where
  "stopSelenoidUi w s =
     (let s1 = log_info ''Stopping any running selenoid-ui containers'' s in
      case docker w [Some ''rm'', Some ''-f'', selenoidUiContainerName (options (self s1))] s1 of
        (Inr stdout, s2) \<Rightarrow> (Inr (Output stdout), s2)
      | (Inl error, s2) \<Rightarrow> (Inr (Caught (ExecaError error)), s2))"

definition startArgsUi :: "service \<Rightarrow> string option list" where
  "startArgsUi this =
     [Some ''run'',
      Some ''-d'',
      Some ''--name'',
      selenoidUiContainerName (options this),
      Some ''-p'',
      Some (template_num (port (options this)) @ '':8080''),
      Some ''--link'',
      selenoidContainerName (options this)]
     @ map Some (or_empty (dockerArgs (options this)))
     @ [Some (''aerokube/selenoid-ui:'' @ template (selenoidUiVersion (options this))),
        Some ''--selenoid-uri'',
        Some (''http://'' @ template (selenoidContainerName (options this)) @ '':''
                @ template_num (selenoidPort (options this)))]
     @ map Some (or_empty (selenoidUiArgs (options this)))"

definition startSelenoidUi :: "env \<Rightarrow> resolved promise" where
  "startSelenoidUi w s =
     (let s1 = log_info ''Starting Selenoid-Ui Container'' s in
      case docker w (startArgsUi (self s1)) s1 of
        (Inr stdout, s2) \<Rightarrow> (Inr (Output stdout), s2)
      | (Inl error, s2) \<Rightarrow> (Inr (Caught (ExecaError error)), s2))"

definition pullRequiredSelenoidUiVersion :: "env \<Rightarrow> unit promise" where
  "pullRequiredSelenoidUiVersion w s =
     (let img = ''aerokube/selenoid-ui:'' @ template (selenoidUiVersion (options (self s))) in
      case doesImageExist w img s of
        (Inl e, s1) \<Rightarrow> (Inl e, s1)
      | (Inr found, s1) \<Rightarrow>
          if found then
            (Inr (), log_info (''Skipping pull.  Image '' @ img @ '' already exists'') s1)
          else
            (let s2 = log_info
                        (''Pulling selenoid image '' @ [CHR 0x27] @ ''aerokube/selenoid-ui:''
                           @ template (selenoidUiVersion (options (self s1))) @ [CHR 0x27]) s1
             in case docker w
                       [Some ''pull'',
                        Some (''aerokube/selenoid-ui:''
                                @ template (selenoidUiVersion (options (self s2))))] s2 of
                  (Inl error, s3) \<Rightarrow> (Inr (), log_error error s3)
                | (Inr _, s3) \<Rightarrow> (Inr (), s3)))"

definition psArgs :: "service \<Rightarrow> string option list" where
  "psArgs this =
     [Some ''ps'', Some ''-f'', Some (''name='' @ template (selenoidContainerName (options this)))]"

text \<open>
  The \<open>for\<close> loop of \<open>waitForSelenoidToBeRunning\<close>, from the value \<open>i\<close> of its counter
  on. The logger is given the message and the error; the event keeps both in one line.
\<close>

function wait_from :: "env \<Rightarrow> nat \<Rightarrow> unit promise" where
  "wait_from w i s =
     (if i < 10 then
        (case docker w (psArgs (self s)) s of
           (Inr stdout, s1) \<Rightarrow>
             (let results = split_nl stdout in
              if length results \<ge> 2 then (Inr (), s1)
              else wait_from w (i + 1)
                     (sleep 1000 (log_debug ''Selenoid container not started, waiting 1s'' s1)))
         | (Inl error, s1) \<Rightarrow>
             wait_from w (i + 1)
               (sleep 1000
                  (log_debug ''Selenoid container not started, waiting 1s''
                     (log_debug (''Error when checking for Selenoid container: '' @ error) s1))))
      else (Inr (), s))"
  by pat_completeness auto
termination
  by (relation "measure (\<lambda>(w, i, s). 10 - i)") auto

declare wait_from.simps [simp del]

definition waitForSelenoidToBeRunning :: "env \<Rightarrow> unit promise" where
  "waitForSelenoidToBeRunning w s =
     wait_from w 0 (log_info ''Waiting for Selenoid to be Running'' s)"

section \<open>Statements of a function body\<close>

text \<open>
  How a statement completes: normally (the next statement runs), by \<open>return\<close>, or by a
  \<open>throw\<close>. A block runs its statements in order until one does not complete
  normally; whatever follows that one does not run.
\<close>

datatype 'a completion = Normal | Return 'a | Throw error

type_synonym 'a stmt = "state \<Rightarrow> 'a completion \<times> state"

text \<open>\<open>await m();\<close> as a statement: the value is dropped, a rejection is thrown.\<close>

definition await_stmt :: "'b promise \<Rightarrow> 'a stmt" where
  "await_stmt m s = (case m s of (Inl e, s1) \<Rightarrow> (Throw e, s1) | (Inr _, s1) \<Rightarrow> (Normal, s1))"

text \<open>\<open>return m();\<close> in an async function.\<close>

definition return_stmt :: "'a promise \<Rightarrow> 'a stmt" where
  "return_stmt m s = (case m s of (Inl e, s1) \<Rightarrow> (Throw e, s1) | (Inr v, s1) \<Rightarrow> (Return v, s1))"

fun block :: "'a stmt list \<Rightarrow> 'a stmt" where
  "block [] s = (Normal, s)"
| "block (c # cs) s =
     (case c s of (Normal, s1) \<Rightarrow> block cs s1 | (r, s1) \<Rightarrow> (r, s1))"

definition if_stmt :: "(state \<Rightarrow> bool) \<Rightarrow> 'a stmt \<Rightarrow> 'a stmt" where
  "if_stmt c body s = (if c s then body s else (Normal, s))"

text \<open>
  The promise of an async function: a body that falls off its end resolves with
  \<open>undefined\<close> (\<open>None\<close>).
\<close>

definition async :: "'a stmt \<Rightarrow> 'a option promise" where
  "async body s =
     (case body s of
        (Normal, s1) \<Rightarrow> (Inr None, s1)
      | (Return v, s1) \<Rightarrow> (Inr (Some v), s1)
      | (Throw e, s1) \<Rightarrow> (Inl e, s1))"

section \<open>The hooks\<close>

definition onPrepare_body :: "env \<Rightarrow> resolved stmt list" where
  "onPrepare_body w =
     [await_stmt (stopSelenoid w),
      await_stmt (stopSelenoidUi w),
      await_stmt (verifySelenoidBrowserConfig w),
      if_stmt (\<lambda>s. \<not> truthy (skipAutoPullImages (options (self s))))
        (block
           [await_stmt (pullRequiredBrowserFiles w),
            await_stmt (pullRequiredSelenoidUiVersion w),
            await_stmt (pullRequiredSelenoidVersion w)]),
      return_stmt (startSelenoid w),
      await_stmt (waitForSelenoidToBeRunning w),
      return_stmt (startSelenoidUi w)]"

definition onPrepare :: "env \<Rightarrow> resolved option promise" where
  "onPrepare w = async (block (onPrepare_body w))"

definition onComplete_body :: "env \<Rightarrow> resolved stmt list" where
  "onComplete_body w =
     [return_stmt (stopSelenoid w),
      return_stmt (stopSelenoidUi w)]"

definition onComplete :: "env \<Rightarrow> resolved option promise" where
  "onComplete w = async (block (onComplete_body w))"

section \<open>Vocabulary of the properties\<close>

text \<open>
  The events that only the two trailing statements of \<open>onPrepare\<close> produce: the
  readiness wait (its announcement, its \<open>docker ps\<close>, its sleeps) and the start of the
  UI container (its announcement, its \<open>docker run\<close>).
\<close>

fun trailing_event :: "service \<Rightarrow> event \<Rightarrow> bool" where
  "trailing_event this (Log l m) =
     (l = LogInfo \<and> (m = ''Waiting for Selenoid to be Running''
                     \<or> m = ''Starting Selenoid-Ui Container''))"
| "trailing_event this (Exec args) = (args = psArgs this \<or> args = startArgsUi this)"
| "trailing_event this (Sleep t) = True"

text \<open>The events of the two stops that open \<open>onPrepare\<close>.\<close>

definition stop_events :: "service \<Rightarrow> event list" where
  "stop_events this =
     [Log LogInfo ''Stopping any running selenoid containers'',
      Exec [Some ''rm'', Some ''-f'', selenoidContainerName (options this)],
      Log LogInfo ''Stopping any running selenoid-ui containers'',
      Exec [Some ''rm'', Some ''-f'', selenoidUiContainerName (options this)]]"

text \<open>The error line of the configuration check.\<close>

definition missing_config_event :: "service \<Rightarrow> event" where
  "missing_config_event this =
     Log LogError (''Unable to find browsers.json at '' @ selenoidBrowsersConfigPath this)"

text \<open>The events of the gateway start.\<close>

definition start_events :: "env \<Rightarrow> service \<Rightarrow> event list" where
  "start_events w this =
     [Log LogInfo ''Starting Selenoid Container'', Exec (startArgs w this)]"

text \<open>A \<open>docker run\<close> and a \<open>docker pull\<close> are told by their first argument.\<close>

fun is_run :: "event \<Rightarrow> bool" where
  "is_run (Exec (a # args)) = (a = Some ''run'')"
| "is_run _ = False"

fun is_pull :: "event \<Rightarrow> bool" where
  "is_pull (Exec (a # args)) = (a = Some ''pull'')"
| "is_pull _ = False"

text \<open>The listing command of \<open>doesImageExist\<close> and the pull command of an image.\<close>

definition listArgs :: "string \<Rightarrow> string option list" where
  "listArgs imageName =
     [Some ''image'', Some ''ls'', Some ''-f'', Some (''reference='' @ imageName)]"

definition pullArgs :: "string \<Rightarrow> string option list" where
  "pullArgs imageName = [Some ''pull'', Some imageName]"

text \<open>
  What the existence check answers when the listing is asked after the events \<open>h\<close>:
  present when the output has two lines or more, and when the listing fails.
\<close>

definition listed :: "env \<Rightarrow> event list \<Rightarrow> string \<Rightarrow> bool" where
  "listed w h imageName =
     (case execa w h (listArgs imageName) of
        Inr out \<Rightarrow> 2 \<le> length (split_nl out)
      | Inl err \<Rightarrow> True)"

definition pulls_of :: "string \<Rightarrow> event list \<Rightarrow> nat" where
  "pulls_of imageName es = count_list es (Exec (pullArgs imageName))"

text \<open>
  Whether \<open>docker ps\<close> shows the gateway when asked after the events \<open>h\<close>: more than
  the header row; a failing command does not show it.
\<close>

definition running :: "env \<Rightarrow> service \<Rightarrow> event list \<Rightarrow> bool" where
  "running w this h =
     (case execa w h (psArgs this) of
        Inr out \<Rightarrow> 2 \<le> length (split_nl out)
      | Inl err \<Rightarrow> False)"

fun is_log :: "event \<Rightarrow> bool" where
  "is_log (Log l m) = True"
| "is_log _ = False"

text \<open>The commands and sleeps among some events, the log lines left out.\<close>

definition actions :: "event list \<Rightarrow> event list" where
  "actions es = filter (\<lambda>e. \<not> is_log e) es"

text \<open>The milliseconds slept in total.\<close>

fun slept :: "event list \<Rightarrow> nat" where
  "slept [] = 0"
| "slept (Sleep t # es) = t + slept es"
| "slept (e # es) = slept es"

definition attempts :: "service \<Rightarrow> event list \<Rightarrow> nat" where
  "attempts this es = count_list es (Exec (psArgs this))"

text \<open>
  One unsuccessful turn of the readiness loop, asked after the events \<open>h\<close>: the
  listing, the line about its error if it failed, the line about waiting, the sleep.
\<close>

definition retry_events :: "env \<Rightarrow> service \<Rightarrow> event list \<Rightarrow> event list" where
  "retry_events w this h =
     Exec (psArgs this)
     # (case execa w h (psArgs this) of
          Inl err \<Rightarrow> [Log LogDebug (''Error when checking for Selenoid container: '' @ err)]
        | Inr out \<Rightarrow> [])
     @ [Log LogDebug ''Selenoid container not started, waiting 1s'', Sleep 1000]"

text \<open>The command and the sleep of such a turn.\<close>

definition round_trip :: "service \<Rightarrow> event list" where
  "round_trip this = [Exec (psArgs this), Sleep 1000]"

text \<open>
  The invariant of the readiness loop with \<open>n\<close> turns left, for the events \<open>es\<close> it
  adds to the events \<open>h\<close>.
\<close>

definition polled :: "env \<Rightarrow> service \<Rightarrow> event list \<Rightarrow> nat \<Rightarrow> event list \<Rightarrow> bool" where
  "polled w this h n es \<longleftrightarrow>
     attempts this es \<le> n \<and> slept es \<le> 1000 * n
     \<and> (\<exists>k\<le>n. actions es = concat (replicate k (round_trip this))
                    @ (if k < n then [Exec (psArgs this)] else [])
                \<and> (k < n \<longrightarrow> running w this (butlast (h @ es))))
     \<and> (\<forall>pre post. es = pre @ Exec (psArgs this) # post \<and> running w this (h @ pre)
            \<longrightarrow> post = [])"

text \<open>
  \<open>new SelenoidStandaloneService(serviceOptions)\<close> followed by one hook, after the
  events \<open>history\<close>: what the hook settles with, and all events.
\<close>

definition run_hook ::
  "(env \<Rightarrow> 'a promise) \<Rightarrow> env \<Rightarrow> ServiceOptions \<Rightarrow> event list \<Rightarrow> (error + 'a) \<times> event list" where
  "run_hook hook w serviceOptions history =
     (case constructor w serviceOptions of
        Inl e \<Rightarrow> (Inl e, history)
      | Inr this \<Rightarrow>
          (case hook w \<lparr> self = this, trace = history \<rparr> of (r, s) \<Rightarrow> (r, trace s)))"

section \<open>Concrete hosts and configurations\<close>

text \<open>The options object \<open>{}\<close>.\<close>

definition no_options :: ServiceOptions where
  "no_options = \<lparr>
     pathToBrowsersConfig = None, terminateWdioOnError = None, selenoidVersion = None,
     skipAutoPullImage = None, selenoidContainerName = None, selenoidUiContainerName = None,
     selenoidUiVersion = None, port = None, selenoidPort = None, dockerArgs = None,
     selenoidUiArgs = None, selenoidArgs = None, skipAutoPullImages = None \<rparr>"

definition ci_options :: ServiceOptions where
  "ci_options = no_options\<lparr>pathToBrowsersConfig := Some ''browsers.json''\<rparr>"

definition header :: string where
  "header = ''REPOSITORY TAG IMAGE ID CREATED SIZE''"

text \<open>
  A Linux host in \<open>/home/ci\<close> with no browsers file and a container engine that
  answers every command with one header line. On the paths used here the two path
  functions agree with the POSIX ones of Node.
\<close>

definition ci_env :: env where
  "ci_env = \<lparr>
     platform = ''linux'',
     cwd = ''/home/ci'',
     path_join = (\<lambda>a b. a @ ''/'' @ b),
     path_dirname = (\<lambda>p. rev (tl (dropWhile (\<lambda>c. c \<noteq> CHR ''/'') (rev p)))),
     pathExists = (\<lambda>p. False),
     require = (\<lambda>p. Inl ''Cannot find module''),
     execa = (\<lambda>h args. Inr header) \<rparr>"

text \<open>The service \<open>constructor ci_env ci_options\<close> builds, and its first state.\<close>

definition ci_service :: service where
  "ci_service = \<lparr>
     options = spread defaults ci_options,
     dockerSocketPath = ''/var/run/docker.sock'',
     selenoidBrowsersConfigPath = ''/home/ci/browsers.json'' \<rparr>"

definition ci_state :: state where
  "ci_state = \<lparr> self = ci_service, trace = [] \<rparr>"

text \<open>The same service with a field of its options changed.\<close>

definition with_options :: "(ServiceOptions \<Rightarrow> ServiceOptions) \<Rightarrow> state \<Rightarrow> state" where
  "with_options f s = s\<lparr>self := (self s)\<lparr>options := f (options (self s))\<rparr>\<rparr>"

text \<open>The same service with the terminating policy off, and with pulling skipped.\<close>

definition lenient_state :: state where
  "lenient_state = with_options (\<lambda>opts. opts\<lparr>terminateWdioOnError := Some False\<rparr>) ci_state"

definition skipping_state :: state where
  "skipping_state = with_options (\<lambda>opts. opts\<lparr>skipAutoPullImages := Some True\<rparr>) ci_state"

text \<open>A state with the option \<open>skipAutoPullImage\<close> of its service set to \<open>b\<close>.\<close>

definition set_singular :: "bool option \<Rightarrow> state \<Rightarrow> state" where
  "set_singular b s = s\<lparr>self := (self s)\<lparr>options := (options (self s))\<lparr>skipAutoPullImage := b\<rparr>\<rparr>\<rparr>"

text \<open>A computation that does the same in such a state: it does not read the option.\<close>

definition unaffected :: "bool option \<Rightarrow> (state \<Rightarrow> 'r \<times> state) \<Rightarrow> bool" where
  "unaffected b m \<longleftrightarrow>
     (\<forall>s. m (set_singular b s) = (case m s of (r, s1) \<Rightarrow> (r, set_singular b s1)))"

text \<open>Options that ask for the gateway on port 5555.\<close>

definition port_options :: ServiceOptions where
  "port_options = ci_options\<lparr>selenoidPort := Some 5555\<rparr>"

text \<open>A browsers file with two images, one version each.\<close>

definition two_browsers :: BrowserConfig where
  "two_browsers =
     [(''chrome'', \<lparr> default_version = ''91.0'', versions =
         [(''91.0'', \<lparr> image = ''selenoid/chrome:91.0'', image_port = 4444,
                       image_path = ''/'' \<rparr>)] \<rparr>),
      (''firefox'', \<lparr> default_version = ''89.0'', versions =
         [(''89.0'', \<lparr> image = ''selenoid/firefox:89.0'', image_port = 4444,
                       image_path = ''/wd/hub'' \<rparr>)] \<rparr>)]"

text \<open>The same host with the browsers file in place, and every pull failing.\<close>

definition offline_env :: env where
  "offline_env = ci_env\<lparr>
     pathExists := (\<lambda>p. True),
     require := (\<lambda>p. Inr two_browsers),
     execa := (\<lambda>h args. if take 1 args = [Some ''pull''] then Inl ''pull access denied''
                          else Inr header) \<rparr>"

text \<open>
  A host where the chrome image is listed with its row, nothing else is, and every
  pull fails.
\<close>

definition chrome_env :: env where
  "chrome_env = offline_env\<lparr>
     execa := (\<lambda>h args.
        if take 1 args = [Some ''pull''] then Inl ''pull access denied''
        else if args = listArgs ''selenoid/chrome:91.0''
        then Inr (header @ [newline] @ ''selenoid/chrome 91.0 0123456789ab 2 weeks ago 1GB'')
        else Inr header) \<rparr>"

text \<open>A host where every command of the container engine fails.\<close>

definition broken_env :: env where
  "broken_env = offline_env\<lparr>execa := (\<lambda>h args. Inl ''Cannot connect to the Docker daemon'')\<rparr>"

text \<open>
  A host where the gateway shows in the third \<open>docker ps\<close>: the first fails, the second
  shows the header alone (two sleeps have passed by the third).
\<close>

definition slow_env :: env where
  "slow_env = ci_env\<lparr>
     execa := (\<lambda>h args.
        if slept h = 0 then Inl ''Cannot connect to the Docker daemon''
        else if slept h < 2000 then Inr ''CONTAINER ID''
        else Inr (''CONTAINER ID'' @ [newline] @ ''0123456789ab'')) \<rparr>"

text \<open>
  A Windows host in \<open>D:\Code\<close>; on these arguments \<open>path.join\<close> of Node puts one
  backslash between the two.
\<close>

definition win_env :: env where
  "win_env = ci_env\<lparr>
     platform := ''win32'',
     cwd := ''D:'' @ [backslash] @ ''Code'',
     path_join := (\<lambda>a b. a @ [backslash] @ b) \<rparr>"

text \<open>A Windows host in \<open>c:\Users\Charlie\<close>, the drive letter already in lower case.\<close>

definition win_charlie_env :: env where
  "win_charlie_env =
     win_env\<lparr>cwd := ''c:'' @ [backslash] @ ''Users'' @ [backslash] @ ''Charlie''\<rparr>"

fun is_rm :: "event \<Rightarrow> bool" where
  "is_rm (Exec (a # args)) = (a = Some ''rm'')"
| "is_rm _ = False"

text \<open>
  A host with the browsers file in place where a removal fails and leaves the name
  taken: \<open>docker rm\<close> fails, and \<open>docker run\<close> fails once a removal has been tried,
  not before; every other command answers with the header line.
\<close>

definition conflict_env :: env where
  "conflict_env = offline_env\<lparr>
     execa := (\<lambda>h args.
        if take 1 args = [Some ''rm''] then Inl ''permission denied''
        else if take 1 args = [Some ''run''] \<and> list_ex is_rm h
        then Inl ''Conflict. The container name is already in use''
        else Inr header) \<rparr>"

section \<open>Basic facts\<close>

lemma trace_emit [simp]: "trace (emit es s) = trace s @ es"
  by (simp add: emit_def)

lemma self_emit [simp]: "self (emit es s) = self s"
  by (simp add: emit_def)

lemma emit_emit [simp]: "emit es (emit fs s) = emit (fs @ es) s"
  by (simp add: emit_def)

lemma emit_Nil [simp]: "emit [] s = s"
  by (simp add: emit_def)

lemma emitted_emit: "snd (m s) = emit es s \<Longrightarrow> emitted m s = es"
  by (simp add: emitted_def)

lemmas effect_defs = log_debug_def log_info_def log_error_def docker_def sleep_def

lemma stopSelenoid_eq:
  "\<exists>v. stopSelenoid w s =
     (Inr v, emit [Log LogInfo ''Stopping any running selenoid containers'',
                   Exec [Some ''rm'', Some ''-f'', selenoidContainerName (options (self s))]] s)"
  by (auto simp: stopSelenoid_def effect_defs Let_def split: sum.split)

lemma stopSelenoidUi_eq:
  "\<exists>v. stopSelenoidUi w s =
     (Inr v, emit [Log LogInfo ''Stopping any running selenoid-ui containers'',
                   Exec [Some ''rm'', Some ''-f'', selenoidUiContainerName (options (self s))]] s)"
  by (auto simp: stopSelenoidUi_def effect_defs Let_def split: sum.split)

lemma return_stmt_not_Normal: "fst (return_stmt m s) \<noteq> Normal"
  by (simp add: return_stmt_def split: prod.split sum.split)

lemma block_return_cut:
  "block (cs @ return_stmt m # ds) s = block (cs @ [return_stmt m]) s"
proof (induction cs arbitrary: s)
  case Nil
  show ?case using return_stmt_not_Normal [of m s]
    by (cases "return_stmt m s") (auto split: completion.split)
next
  case (Cons c cs)
  then show ?case by (auto split: prod.split completion.split)
qed

lemma split_nl_length: "length (split_nl s) = Suc (count_list s newline)"
  by (induction s) (auto split: list.split)


lemma verify_eq:
  "verifySelenoidBrowserConfig w s =
     (if pathExists w (selenoidBrowsersConfigPath (self s)) then (Inr (), s)
      else (if terminateWdioOnError (options (self s)) = Some True
            then Inl (SevereServiceError
                   (''Unable to find browsers.json at '' @ selenoidBrowsersConfigPath (self s)))
            else Inr (),
            emit [Log LogError
                   (''Unable to find browsers.json at '' @ selenoidBrowsersConfigPath (self s))] s))"
  by (simp add: verifySelenoidBrowserConfig_def effect_defs Let_def)

lemma doesImageExist_eq:
  "doesImageExist w img s =
     (case execa w (trace s @ [Log LogDebug (''Checking image '' @ img @ '' exists'')])
             [Some ''image'', Some ''ls'', Some ''-f'', Some (''reference='' @ img)] of
        Inr out \<Rightarrow>
          (Inr (2 \<le> length (split_nl out)),
           emit [Log LogDebug (''Checking image '' @ img @ '' exists''),
                 Exec [Some ''image'', Some ''ls'', Some ''-f'', Some (''reference='' @ img)]] s)
      | Inl err \<Rightarrow>
          (Inr True,
           emit [Log LogDebug (''Checking image '' @ img @ '' exists''),
                 Exec [Some ''image'', Some ''ls'', Some ''-f'', Some (''reference='' @ img)],
                 Log LogError err] s))"
  by (simp add: doesImageExist_def effect_defs Let_def split: sum.split)

lemma doesImageExist_quiet:
  "\<exists>b es. doesImageExist w img s = (Inr b, emit es s)
      \<and> list_all (\<lambda>e. \<not> trailing_event this e) es"
  by (auto simp: doesImageExist_eq psArgs_def startArgsUi_def split: sum.split)

lemma pull_each_quiet:
  "\<exists>r es. pull_each w imgs s = (r, emit es s)
      \<and> list_all (\<lambda>e. \<not> trailing_event this e) es"
proof (induction imgs arbitrary: s)
  case Nil
  have "pull_each w [] s = (Inr (), emit [] s) \<and> list_all (\<lambda>e. \<not> trailing_event this e) []"
    by simp
  then show ?case by blast
next
  case (Cons img imgs)
  obtain b es where d: "doesImageExist w img s = (Inr b, emit es s)"
    and des: "list_all (\<lambda>e. \<not> trailing_event this e) es"
    using doesImageExist_quiet by blast
  show ?case
  proof (cases b)
    case True
    obtain r fs where
      "pull_each w imgs (emit (es @ [Log LogInfo (''Skipping pull. Image: '' @ img @ '' already exists'')]) s)
         = (r, emit fs (emit (es @ [Log LogInfo (''Skipping pull. Image: '' @ img @ '' already exists'')]) s))"
      and "list_all (\<lambda>e. \<not> trailing_event this e) fs"
      using Cons.IH by blast
    with d des True show ?thesis
      by (auto simp: effect_defs intro!: exI)
  next
    case False
    let ?s2 = "emit (es @ [Log LogInfo (''Pulling image '' @ img), Exec [Some ''pull'', Some img]]) s"
    obtain r fs where "pull_each w imgs ?s2 = (r, emit fs ?s2)"
      and "list_all (\<lambda>e. \<not> trailing_event this e) fs"
      using Cons.IH by blast
    with d des False show ?thesis
      by (auto simp: effect_defs psArgs_def startArgsUi_def split: sum.split intro!: exI)
  qed
qed


lemma startSelenoid_eq:
  "startSelenoid w s =
     (case execa w (trace s @ [Log LogInfo ''Starting Selenoid Container''])
             (startArgs w (self s)) of
        Inr out \<Rightarrow> Inr (Output out)
      | Inl err \<Rightarrow>
          if terminateWdioOnError (options (self s)) = Some True
          then Inl (SevereServiceError (''Unable to start selenoid container '' @ [newline] @ err))
          else Inr (Caught (ExecaError err)),
      emit (start_events w (self s)) s)"
  by (simp add: startSelenoid_def start_events_def effect_defs Let_def split: sum.split)

lemma pullRequiredBrowserFiles_quiet:
  "\<exists>es. pullRequiredBrowserFiles w s = (Inr (), emit es s)
      \<and> list_all (\<lambda>e. \<not> trailing_event this e) es"
proof (cases "require w (selenoidBrowsersConfigPath (self s))")
  case (Inl err)
  then have "pullRequiredBrowserFiles w s = (Inr (), emit [Log LogError err] s)"
    by (simp add: pullRequiredBrowserFiles_def effect_defs)
  then show ?thesis by (intro exI [of _ "[Log LogError err]"]) simp
next
  case (Inr cfg)
  obtain r es where p: "pull_each w (browserImages cfg) s = (r, emit es s)"
    and q: "list_all (\<lambda>e. \<not> trailing_event this e) es"
    using pull_each_quiet by blast
  show ?thesis
  proof (cases r)
    case (Inl e)
    with Inr p have "pullRequiredBrowserFiles w s = (Inr (), emit (es @ [Log LogError (error_text e)]) s)"
      by (simp add: pullRequiredBrowserFiles_def effect_defs)
    with q show ?thesis by (intro exI [of _ "es @ [Log LogError (error_text e)]"]) simp
  next
    case (Inr u)
    with \<open>require w _ = Inr cfg\<close> p have "pullRequiredBrowserFiles w s = (Inr (), emit es s)"
      by (simp add: pullRequiredBrowserFiles_def)
    with q show ?thesis by blast
  qed
qed

lemma pullRequiredSelenoidUiVersion_quiet:
  "\<exists>es. pullRequiredSelenoidUiVersion w s = (Inr (), emit es s)
      \<and> list_all (\<lambda>e. \<not> trailing_event this e) es"
  by (auto simp: pullRequiredSelenoidUiVersion_def doesImageExist_eq effect_defs Let_def
        psArgs_def startArgsUi_def split: sum.split intro!: exI)

lemma pullRequiredSelenoidVersion_quiet:
  "\<exists>es. pullRequiredSelenoidVersion w s = (Inr (), emit es s)
      \<and> list_all (\<lambda>e. \<not> trailing_event this e) es"
  by (auto simp: pullRequiredSelenoidVersion_def doesImageExist_eq effect_defs Let_def
        psArgs_def startArgsUi_def split: sum.split intro!: exI)


lemma pulling_quiet:
  "\<exists>es. if_stmt (\<lambda>s. \<not> truthy (skipAutoPullImages (options (self s))))
          (block
             [await_stmt (pullRequiredBrowserFiles w),
              await_stmt (pullRequiredSelenoidUiVersion w),
              await_stmt (pullRequiredSelenoidVersion w)]) s = (Normal, emit es s)
      \<and> list_all (\<lambda>e. \<not> trailing_event this e) es
      \<and> (truthy (skipAutoPullImages (options (self s))) \<longrightarrow> es = [])"
proof (cases "truthy (skipAutoPullImages (options (self s)))")
  case True
  then show ?thesis by (intro exI [of _ "[]"]) (simp add: if_stmt_def)
next
  case False
  obtain es1 where 1: "pullRequiredBrowserFiles w s = (Inr (), emit es1 s)"
    and q1: "list_all (\<lambda>e. \<not> trailing_event this e) es1"
    using pullRequiredBrowserFiles_quiet by blast
  obtain es2 where 2: "pullRequiredSelenoidUiVersion w (emit es1 s) = (Inr (), emit es2 (emit es1 s))"
    and q2: "list_all (\<lambda>e. \<not> trailing_event this e) es2"
    using pullRequiredSelenoidUiVersion_quiet by blast
  obtain es3 where 3: "pullRequiredSelenoidVersion w (emit (es1 @ es2) s)
        = (Inr (), emit es3 (emit (es1 @ es2) s))"
    and q3: "list_all (\<lambda>e. \<not> trailing_event this e) es3"
    using pullRequiredSelenoidVersion_quiet by blast
  from False 1 2 3 q1 q2 q3 show ?thesis
    by (intro exI [of _ "es1 @ es2 @ es3"]) (simp add: if_stmt_def await_stmt_def)
qed

lemma onPrepare_cut:
  "onPrepare w s =
     async (block
       [await_stmt (stopSelenoid w),
        await_stmt (stopSelenoidUi w),
        await_stmt (verifySelenoidBrowserConfig w),
        if_stmt (\<lambda>s. \<not> truthy (skipAutoPullImages (options (self s))))
          (block
             [await_stmt (pullRequiredBrowserFiles w),
              await_stmt (pullRequiredSelenoidUiVersion w),
              await_stmt (pullRequiredSelenoidVersion w)]),
        return_stmt (startSelenoid w)]) s"
  using block_return_cut [of "take 4 (onPrepare_body w)" "startSelenoid w"
      "[await_stmt (waitForSelenoidToBeRunning w), return_stmt (startSelenoidUi w)]"]
  by (simp add: onPrepare_def onPrepare_body_def async_def)

lemma onComplete_cut:
  "onComplete w s = async (block [return_stmt (stopSelenoid w)]) s"
  using block_return_cut [of "[]" "stopSelenoid w" "[return_stmt (stopSelenoidUi w)]"]
  by (simp add: onComplete_def onComplete_body_def async_def)

lemma onPrepare_shape:
  "\<exists>es. list_all (\<lambda>e. \<not> trailing_event this e) es
     \<and> (truthy (skipAutoPullImages (options (self s))) \<longrightarrow> es = [])
     \<and> onPrepare w s =
        (if \<not> pathExists w (selenoidBrowsersConfigPath (self s))
            \<and> terminateWdioOnError (options (self s)) = Some True
         then (Inl (SevereServiceError
                 (''Unable to find browsers.json at '' @ selenoidBrowsersConfigPath (self s))),
               emit (stop_events (self s) @ [missing_config_event (self s)]) s)
         else
           (let before = stop_events (self s)
                  @ (if pathExists w (selenoidBrowsersConfigPath (self s)) then []
                     else [missing_config_event (self s)])
                  @ es
            in (case execa w (trace s @ before @ [Log LogInfo ''Starting Selenoid Container''])
                       (startArgs w (self s)) of
                  Inr out \<Rightarrow> Inr (Some (Output out))
                | Inl err \<Rightarrow>
                    if terminateWdioOnError (options (self s)) = Some True
                    then Inl (SevereServiceError
                           (''Unable to start selenoid container '' @ [newline] @ err))
                    else Inr (Some (Caught (ExecaError err))),
                emit (before @ start_events w (self s)) s)))"
proof -
  obtain v1 where 1: "stopSelenoid w s = (Inr v1, emit (take 2 (stop_events (self s))) s)"
    using stopSelenoid_eq [of w s] by (auto simp: stop_events_def)
  obtain v2 where 2: "stopSelenoidUi w (emit (take 2 (stop_events (self s))) s)
       = (Inr v2, emit (stop_events (self s)) s)"
    using stopSelenoidUi_eq [of w "emit (take 2 (stop_events (self s))) s"]
    by (auto simp: stop_events_def)
  let ?s2 = "emit (stop_events (self s)) s"
  show ?thesis
  proof (cases "\<not> pathExists w (selenoidBrowsersConfigPath (self s))
            \<and> terminateWdioOnError (options (self s)) = Some True")
    case True
    then show ?thesis using 1 2
      by (intro exI [of _ "[]"])
         (simp add: onPrepare_cut async_def await_stmt_def verify_eq missing_config_event_def)
  next
    case False
    let ?v = "if pathExists w (selenoidBrowsersConfigPath (self s)) then []
                     else [missing_config_event (self s)]"
    let ?s3 = "emit (stop_events (self s) @ ?v) s"
    have 3: "verifySelenoidBrowserConfig w ?s2 = (Inr (), ?s3)"
      using False by (auto simp: verify_eq missing_config_event_def)
    obtain es where 4: "if_stmt (\<lambda>s. \<not> truthy (skipAutoPullImages (options (self s))))
          (block
             [await_stmt (pullRequiredBrowserFiles w),
              await_stmt (pullRequiredSelenoidUiVersion w),
              await_stmt (pullRequiredSelenoidVersion w)]) ?s3
            = (Normal :: resolved completion, emit es ?s3)"
      and q: "list_all (\<lambda>e. \<not> trailing_event this e) es"
      and e: "truthy (skipAutoPullImages (options (self s))) \<longrightarrow> es = []"
      using pulling_quiet [of w ?s3 this] by auto
    have "onPrepare w s =
        (let before = stop_events (self s) @ ?v @ es
            in (case execa w (trace s @ before @ [Log LogInfo ''Starting Selenoid Container''])
                       (startArgs w (self s)) of
                  Inr out \<Rightarrow> Inr (Some (Output out))
                | Inl err \<Rightarrow>
                    if terminateWdioOnError (options (self s)) = Some True
                    then Inl (SevereServiceError
                           (''Unable to start selenoid container '' @ [newline] @ err))
                    else Inr (Some (Caught (ExecaError err))),
                emit (before @ start_events w (self s)) s))"
      using 1 2 3 4
      by (simp add: onPrepare_cut async_def await_stmt_def return_stmt_def startSelenoid_eq Let_def
            split: sum.split)
    with False q e show ?thesis
      by (intro exI [of _ es]) (simp only: if_False simp_thms)
  qed
qed

lemma ci_constructor: "constructor ci_env ci_options = Inr ci_service"
  by (simp add: constructor_def ci_env_def ci_options_def no_options_def ci_service_def
        spread_def defaults_def)

lemma onPrepare_refused:
  assumes "\<not> pathExists w (selenoidBrowsersConfigPath (self s))"
    and "terminateWdioOnError (options (self s)) = Some True"
  shows "onPrepare w s =
      (Inl (SevereServiceError
              (''Unable to find browsers.json at '' @ selenoidBrowsersConfigPath (self s))),
       emit (stop_events (self s) @ [missing_config_event (self s)]) s)"
  using onPrepare_shape [of "self s" s w] assms by auto

lemma onPrepare_started:
  assumes "pathExists w (selenoidBrowsersConfigPath (self s))
           \<or> terminateWdioOnError (options (self s)) \<noteq> Some True"
  shows "\<exists>es. onPrepare w s =
       (case execa w (trace s @ (stop_events (self s)
                  @ (if pathExists w (selenoidBrowsersConfigPath (self s)) then []
                     else [missing_config_event (self s)])
                  @ es) @ [Log LogInfo ''Starting Selenoid Container''])
               (startArgs w (self s)) of
          Inr out \<Rightarrow> Inr (Some (Output out))
        | Inl err \<Rightarrow>
            if terminateWdioOnError (options (self s)) = Some True
            then Inl (SevereServiceError
                   (''Unable to start selenoid container '' @ [newline] @ err))
            else Inr (Some (Caught (ExecaError err))),
        emit ((stop_events (self s)
                  @ (if pathExists w (selenoidBrowsersConfigPath (self s)) then []
                     else [missing_config_event (self s)])
                  @ es) @ start_events w (self s)) s)
     \<and> (truthy (skipAutoPullImages (options (self s))) \<longrightarrow> es = [])"
proof -
  obtain es where e: "truthy (skipAutoPullImages (options (self s))) \<longrightarrow> es = []"
    and "onPrepare w s =
        (if \<not> pathExists w (selenoidBrowsersConfigPath (self s))
            \<and> terminateWdioOnError (options (self s)) = Some True
         then (Inl (SevereServiceError
                 (''Unable to find browsers.json at '' @ selenoidBrowsersConfigPath (self s))),
               emit (stop_events (self s) @ [missing_config_event (self s)]) s)
         else
           (let before = stop_events (self s)
                  @ (if pathExists w (selenoidBrowsersConfigPath (self s)) then []
                     else [missing_config_event (self s)])
                  @ es
            in (case execa w (trace s @ before @ [Log LogInfo ''Starting Selenoid Container''])
                       (startArgs w (self s)) of
                  Inr out \<Rightarrow> Inr (Some (Output out))
                | Inl err \<Rightarrow>
                    if terminateWdioOnError (options (self s)) = Some True
                    then Inl (SevereServiceError
                           (''Unable to start selenoid container '' @ [newline] @ err))
                    else Inr (Some (Caught (ExecaError err))),
                emit (before @ start_events w (self s)) s)))"
    using onPrepare_shape [of "self s" s w] by blast
  with assms have "onPrepare w s =
       (case execa w (trace s @ (stop_events (self s)
                  @ (if pathExists w (selenoidBrowsersConfigPath (self s)) then []
                     else [missing_config_event (self s)])
                  @ es) @ [Log LogInfo ''Starting Selenoid Container''])
               (startArgs w (self s)) of
          Inr out \<Rightarrow> Inr (Some (Output out))
        | Inl err \<Rightarrow>
            if terminateWdioOnError (options (self s)) = Some True
            then Inl (SevereServiceError
                   (''Unable to start selenoid container '' @ [newline] @ err))
            else Inr (Some (Caught (ExecaError err))),
        emit ((stop_events (self s)
                  @ (if pathExists w (selenoidBrowsersConfigPath (self s)) then []
                     else [missing_config_event (self s)])
                  @ es) @ start_events w (self s)) s)"
    by (simp only: Let_def) (simp split: sum.split)
  with e show ?thesis by blast
qed

text \<open>The definitions that evaluate a run on one of the concrete hosts.\<close>

lemmas ci_defs = ci_env_def ci_state_def ci_service_def ci_options_def no_options_def
  spread_def defaults_def with_options_def header_def newline_def

lemmas run_defs = async_def await_stmt_def return_stmt_def if_stmt_def
  stopSelenoid_def stopSelenoidUi_def verifySelenoidBrowserConfig_def startSelenoid_def
  startArgs_def doesImageExist_def pullRequiredBrowserFiles_def browserImages_def
  pullRequiredSelenoidUiVersion_def pullRequiredSelenoidVersion_def
  effect_defs emitted_def listArgs_def pullArgs_def Let_def

section \<open>The terminating policy\<close>

text \<open>
  C2. When the browsers file is absent, \<open>onPrepare\<close> logs the error line of the check; it
  rejects exactly when \<open>terminateWdioOnError\<close> is \<open>true\<close>. With the policy on it
  rejects with the error of the check after the two stops and the error line and nothing
  else, so before any \<open>docker run\<close>. With the policy off it resolves, and the gateway's
  \<open>docker run\<close> is among its commands.
\<close>

theorem missing_config_policy:
  assumes "\<not> pathExists w (selenoidBrowsersConfigPath (self s))"
  shows "missing_config_event (self s) \<in> set (emitted (onPrepare w) s)
    \<and> (isl (fst (onPrepare w s)) \<longleftrightarrow> terminateWdioOnError (options (self s)) = Some True)
    \<and> (terminateWdioOnError (options (self s)) = Some True \<longrightarrow>
         fst (onPrepare w s) = Inl (SevereServiceError
            (''Unable to find browsers.json at '' @ selenoidBrowsersConfigPath (self s)))
         \<and> emitted (onPrepare w) s = stop_events (self s) @ [missing_config_event (self s)]
         \<and> list_all (\<lambda>e. \<not> is_run e) (emitted (onPrepare w) s))
    \<and> (terminateWdioOnError (options (self s)) \<noteq> Some True \<longrightarrow>
         Exec (startArgs w (self s)) \<in> set (emitted (onPrepare w) s))"
proof (cases "terminateWdioOnError (options (self s)) = Some True")
  case True
  with assms show ?thesis
    by (simp add: onPrepare_refused emitted_def stop_events_def missing_config_event_def)
next
  case False
  then obtain es where shape: "onPrepare w s =
       (case execa w (trace s @ (stop_events (self s)
                  @ (if pathExists w (selenoidBrowsersConfigPath (self s)) then []
                     else [missing_config_event (self s)])
                  @ es) @ [Log LogInfo ''Starting Selenoid Container''])
               (startArgs w (self s)) of
          Inr out \<Rightarrow> Inr (Some (Output out))
        | Inl err \<Rightarrow>
            if terminateWdioOnError (options (self s)) = Some True
            then Inl (SevereServiceError
                   (''Unable to start selenoid container '' @ [newline] @ err))
            else Inr (Some (Caught (ExecaError err))),
        emit ((stop_events (self s)
                  @ (if pathExists w (selenoidBrowsersConfigPath (self s)) then []
                     else [missing_config_event (self s)])
                  @ es) @ start_events w (self s)) s)"
    using onPrepare_started [of w s] by blast
  with False have "\<not> isl (fst (onPrepare w s))"
    by (simp split: sum.split)
  moreover from shape assms have "emitted (onPrepare w) s =
      (stop_events (self s) @ [missing_config_event (self s)] @ es) @ start_events w (self s)"
    by (simp add: emitted_def)
  ultimately show ?thesis using False
    by (simp add: start_events_def)
qed

theorem missing_config_policy_witness:
  "\<not> pathExists ci_env (selenoidBrowsersConfigPath (self ci_state))
   \<and> terminateWdioOnError (options (self ci_state)) = Some True
   \<and> fst (onPrepare ci_env ci_state)
       = Inl (SevereServiceError ''Unable to find browsers.json at /home/ci/browsers.json'')
   \<and> emitted (onPrepare ci_env) ci_state
       = [Log LogInfo ''Stopping any running selenoid containers'',
          Exec [Some ''rm'', Some ''-f'', Some ''wdio_selenoid''],
          Log LogInfo ''Stopping any running selenoid-ui containers'',
          Exec [Some ''rm'', Some ''-f'', Some ''wdio_selenoidui''],
          Log LogError ''Unable to find browsers.json at /home/ci/browsers.json'']
   \<and> \<not> pathExists ci_env (selenoidBrowsersConfigPath (self lenient_state))
   \<and> terminateWdioOnError (options (self lenient_state)) = Some False
   \<and> \<not> isl (fst (onPrepare ci_env lenient_state))
   \<and> Exec (startArgs ci_env (self lenient_state)) \<in> set (emitted (onPrepare ci_env) lenient_state)
   \<and> Log LogError ''Unable to find browsers.json at /home/ci/browsers.json''
        \<in> set (emitted (onPrepare ci_env) lenient_state)"
  using missing_config_policy [of ci_env ci_state] missing_config_policy [of ci_env lenient_state]
  by (simp add: ci_env_def ci_state_def lenient_state_def with_options_def ci_service_def
        spread_def defaults_def ci_options_def no_options_def stop_events_def
        missing_config_event_def)

text \<open>
  C3. Let the gateway's \<open>docker run\<close> fail with \<open>err\<close> when \<open>onPrepare\<close> issues it:
  whenever the start is reached its command is the last event, so the events before the
  last are the history the command is answered after. Then \<open>onPrepare\<close> rejects exactly
  when \<open>terminateWdioOnError\<close> is \<open>true\<close>; with the policy off it resolves with the
  error object of the command; with the policy on and the browsers file present it
  rejects with the error of the start; nothing runs after the command. \<open>startSelenoid\<close>
  alone, its command failing, rejects or resolves by the same rule.
\<close>

theorem gateway_start_failure_policy:
  assumes "execa w (butlast (trace (snd (onPrepare w s)))) (startArgs w (self s)) = Inl err"
  shows "(isl (fst (onPrepare w s)) \<longleftrightarrow> terminateWdioOnError (options (self s)) = Some True)
    \<and> (terminateWdioOnError (options (self s)) \<noteq> Some True \<longrightarrow>
         fst (onPrepare w s) = Inr (Some (Caught (ExecaError err))))
    \<and> (terminateWdioOnError (options (self s)) = Some True
         \<and> pathExists w (selenoidBrowsersConfigPath (self s)) \<longrightarrow>
         fst (onPrepare w s) = Inl (SevereServiceError
            (''Unable to start selenoid container '' @ [newline] @ err)))
    \<and> (terminateWdioOnError (options (self s)) \<noteq> Some True
         \<or> pathExists w (selenoidBrowsersConfigPath (self s)) \<longrightarrow>
         last (emitted (onPrepare w) s) = Exec (startArgs w (self s)))
    \<and> (execa w (trace s @ [Log LogInfo ''Starting Selenoid Container''])
          (startArgs w (self s)) = Inl err \<longrightarrow>
         fst (startSelenoid w s) =
           (if terminateWdioOnError (options (self s)) = Some True
            then Inl (SevereServiceError
                   (''Unable to start selenoid container '' @ [newline] @ err))
            else Inr (Caught (ExecaError err))))"
proof -
  have start: "execa w (trace s @ [Log LogInfo ''Starting Selenoid Container''])
          (startArgs w (self s)) = Inl err \<longrightarrow>
         fst (startSelenoid w s) =
           (if terminateWdioOnError (options (self s)) = Some True
            then Inl (SevereServiceError
                   (''Unable to start selenoid container '' @ [newline] @ err))
            else Inr (Caught (ExecaError err)))"
    by (simp add: startSelenoid_eq)
  show ?thesis
  proof (cases "\<not> pathExists w (selenoidBrowsersConfigPath (self s))
            \<and> terminateWdioOnError (options (self s)) = Some True")
    case True
    then have "fst (onPrepare w s) = Inl (SevereServiceError
                 (''Unable to find browsers.json at '' @ selenoidBrowsersConfigPath (self s)))"
      by (simp add: onPrepare_refused)
    with True start show ?thesis by simp
  next
    case False
    let ?v = "if pathExists w (selenoidBrowsersConfigPath (self s)) then []
                     else [missing_config_event (self s)]"
    from False obtain es where shape: "onPrepare w s =
       (case execa w (trace s @ (stop_events (self s) @ ?v @ es)
                        @ [Log LogInfo ''Starting Selenoid Container''])
               (startArgs w (self s)) of
          Inr out \<Rightarrow> Inr (Some (Output out))
        | Inl err \<Rightarrow>
            if terminateWdioOnError (options (self s)) = Some True
            then Inl (SevereServiceError
                   (''Unable to start selenoid container '' @ [newline] @ err))
            else Inr (Some (Caught (ExecaError err))),
        emit ((stop_events (self s) @ ?v @ es) @ start_events w (self s)) s)"
      using onPrepare_started [of w s] by blast
    then have "butlast (trace (snd (onPrepare w s)))
        = trace s @ (stop_events (self s) @ ?v @ es)
            @ [Log LogInfo ''Starting Selenoid Container'']"
      by (simp add: start_events_def butlast_append)
    with assms have "execa w (trace s @ (stop_events (self s) @ ?v @ es)
                        @ [Log LogInfo ''Starting Selenoid Container''])
               (startArgs w (self s)) = Inl err"
      by simp
    with shape have "fst (onPrepare w s) =
       (if terminateWdioOnError (options (self s)) = Some True
        then Inl (SevereServiceError (''Unable to start selenoid container '' @ [newline] @ err))
        else Inr (Some (Caught (ExecaError err))))"
      by simp
    moreover from shape have "last (emitted (onPrepare w) s) = Exec (startArgs w (self s))"
      by (simp add: emitted_def start_events_def)
    ultimately show ?thesis using False start
      by auto
  qed
qed

theorem gateway_start_failure_policy_witness:
  "execa conflict_env [] (startArgs conflict_env (self ci_state)) = Inr header
   \<and> execa conflict_env (butlast (trace (snd (onPrepare conflict_env ci_state))))
        (startArgs conflict_env (self ci_state))
       = Inl ''Conflict. The container name is already in use''
   \<and> pathExists conflict_env (selenoidBrowsersConfigPath (self ci_state))
   \<and> fst (onPrepare conflict_env ci_state)
       = Inl (SevereServiceError
           (''Unable to start selenoid container '' @ [newline]
              @ ''Conflict. The container name is already in use''))
   \<and> last (emitted (onPrepare conflict_env) ci_state)
       = Exec (startArgs conflict_env (self ci_state))
   \<and> fst (onPrepare conflict_env lenient_state)
       = Inr (Some (Caught (ExecaError ''Conflict. The container name is already in use'')))
   \<and> last (emitted (onPrepare conflict_env) lenient_state)
       = Exec (startArgs conflict_env (self lenient_state))"
proof -
  have 1: "execa conflict_env (butlast (trace (snd (onPrepare conflict_env ci_state))))
        (startArgs conflict_env (self ci_state))
       = Inl ''Conflict. The container name is already in use''"
    by (simp add: onPrepare_cut run_defs two_browsers_def conflict_env_def offline_env_def
          ci_defs)
  have 2: "execa conflict_env (butlast (trace (snd (onPrepare conflict_env lenient_state))))
        (startArgs conflict_env (self lenient_state))
       = Inl ''Conflict. The container name is already in use''"
    by (simp add: onPrepare_cut run_defs two_browsers_def conflict_env_def offline_env_def
          lenient_state_def ci_defs)
  show ?thesis
    using 1 gateway_start_failure_policy [OF 1] gateway_start_failure_policy [OF 2]
    by (simp add: conflict_env_def offline_env_def lenient_state_def ci_defs startArgs_def)
qed

section \<open>The readiness wait\<close>

lemma wait_from_step:
  "wait_from w i s =
     (if i < 10 then
        (if running w (self s) (trace s) then (Inr (), emit [Exec (psArgs (self s))] s)
         else wait_from w (Suc i) (emit (retry_events w (self s) (trace s)) s))
      else (Inr (), s))"
  by (subst wait_from.simps)
     (simp add: running_def retry_events_def effect_defs Let_def split: sum.split)

lemma retry_head:
  assumes "retry_events w this h = pre @ Exec a # post"
  shows "pre = []"
proof (cases pre)
  case Nil
  then show ?thesis .
next
  case (Cons e pre')
  with assms have "Exec a \<in> set (tl (retry_events w this h))"
    by (simp add: retry_events_def)
  then show ?thesis
    by (auto simp: retry_events_def split: sum.splits)
qed

lemma polled_done: "polled w this h 0 []"
  by (simp add: polled_def attempts_def actions_def)

lemma polled_found:
  "running w this h \<Longrightarrow> polled w this h (Suc n) [Exec (psArgs this)]"
  by (auto simp: polled_def attempts_def actions_def Cons_eq_append_conv intro!: exI [of _ 0])

lemma slept_append: "slept (es @ fs) = slept es + slept fs"
  by (induction es rule: slept.induct) auto

lemma polled_retry:
  assumes nr: "\<not> running w this h"
    and p: "polled w this (h @ retry_events w this h) n es"
  shows "polled w this h (Suc n) (retry_events w this h @ es)"
proof -
  let ?r = "retry_events w this h"
  have a: "attempts this ?r = 1" and sl: "slept ?r = 1000" and ac: "actions ?r = round_trip this"
    by (auto simp: retry_events_def attempts_def actions_def round_trip_def split: sum.split)
  from p have 1: "attempts this (?r @ es) \<le> Suc n"
    using a by (simp add: polled_def attempts_def)
  from p have 2: "slept (?r @ es) \<le> 1000 * Suc n"
    using sl by (simp add: polled_def slept_append)
  from p obtain k where k: "k \<le> n"
    and sh: "actions es = concat (replicate k (round_trip this))
                    @ (if k < n then [Exec (psArgs this)] else [])"
    and ru: "k < n \<longrightarrow> running w this (butlast ((h @ ?r) @ es))"
    by (auto simp: polled_def)
  have 3: "\<exists>k\<le>Suc n. actions (?r @ es) = concat (replicate k (round_trip this))
                    @ (if k < Suc n then [Exec (psArgs this)] else [])
                \<and> (k < Suc n \<longrightarrow> running w this (butlast (h @ ?r @ es)))"
    using k sh ru ac by (intro exI [of _ "Suc k"]) (simp add: actions_def)
  have 4: "\<forall>pre post. ?r @ es = pre @ Exec (psArgs this) # post \<and> running w this (h @ pre)
            \<longrightarrow> post = []"
  proof (intro allI impI)
    fix pre post
    assume h: "?r @ es = pre @ Exec (psArgs this) # post \<and> running w this (h @ pre)"
    then obtain us where
      "(?r = pre @ us \<and> us @ es = Exec (psArgs this) # post)
       \<or> (?r @ us = pre \<and> es = us @ Exec (psArgs this) # post)"
      by (auto simp: append_eq_append_conv2)
    then show "post = []"
    proof
      assume c: "?r = pre @ us \<and> us @ es = Exec (psArgs this) # post"
      show ?thesis
      proof (cases us)
        case Nil
        with c h have "es = [] @ Exec (psArgs this) # post"
          and "running w this ((h @ ?r) @ [])" by auto
        with p show ?thesis unfolding polled_def by blast
      next
        case (Cons u us')
        with c have "?r = pre @ Exec (psArgs this) # us'" by simp
        then have "pre = []" by (rule retry_head)
        with h nr show ?thesis by simp
      qed
    next
      assume c: "?r @ us = pre \<and> es = us @ Exec (psArgs this) # post"
      with h have "running w this ((h @ ?r) @ us)" by auto
      with c p show ?thesis unfolding polled_def by blast
    qed
  qed
  from 1 2 3 4 show ?thesis by (simp add: polled_def)
qed

lemma wait_from_polled:
  "\<exists>es. wait_from w i s = (Inr (), emit es s) \<and> polled w (self s) (trace s) (10 - i) es"
proof (induction "10 - i" arbitrary: i s)
  case 0
  then have "wait_from w i s = (Inr (), emit [] s)"
    by (subst wait_from_step) simp
  with 0 polled_done [of w "self s" "trace s"] show ?case by metis
next
  case (Suc n)
  then have i: "i < 10" and n: "10 - Suc i = n" by auto
  show ?case
  proof (cases "running w (self s) (trace s)")
    case True
    with i have "wait_from w i s = (Inr (), emit [Exec (psArgs (self s))] s)"
      by (subst wait_from_step) simp
    with polled_found [OF True, of n] Suc(2) show ?thesis by metis
  next
    case False
    let ?r = "retry_events w (self s) (trace s)"
    obtain es where w: "wait_from w (Suc i) (emit ?r s) = (Inr (), emit es (emit ?r s))"
      and p: "polled w (self s) (trace s @ ?r) n es"
      using Suc(1) [of "Suc i" "emit ?r s"] n by auto
    from i False w have "wait_from w i s = (Inr (), emit (?r @ es) s)"
      by (subst wait_from_step) simp
    with polled_retry [OF False p] Suc(2) show ?thesis by metis
  qed
qed

text \<open>
  C6. Whatever the container engine answers, and when, \<open>waitForSelenoidToBeRunning\<close>
  resolves (it never rejects); it issues at most 10 \<open>docker ps\<close> and sleeps at most
  10000 ms in all. Its commands and sleeps are \<open>k\<close> turns of one listing and one sleep of
  1000 ms, followed, when \<open>k < 10\<close>, by one last listing that shows the gateway (a failing
  listing counts as not showing it). A listing that shows the gateway is the last event:
  the wait returns at once.
\<close>

theorem readiness_wait_bounded:
  "fst (waitForSelenoidToBeRunning w s) = Inr ()
   \<and> attempts (self s) (emitted (waitForSelenoidToBeRunning w) s) \<le> 10
   \<and> slept (emitted (waitForSelenoidToBeRunning w) s) \<le> 10000
   \<and> (\<exists>k\<le>10.
         actions (emitted (waitForSelenoidToBeRunning w) s)
           = concat (replicate k [Exec (psArgs (self s)), Sleep 1000])
             @ (if k < 10 then [Exec (psArgs (self s))] else [])
         \<and> (k < 10 \<longrightarrow>
               running w (self s) (butlast (trace (snd (waitForSelenoidToBeRunning w s))))))
   \<and> (\<forall>pre post.
         emitted (waitForSelenoidToBeRunning w) s = pre @ Exec (psArgs (self s)) # post
         \<and> running w (self s) (trace s @ pre) \<longrightarrow> post = [])"
proof -
  let ?l = "Log LogInfo ''Waiting for Selenoid to be Running''"
  obtain es where w: "wait_from w 0 (emit [?l] s) = (Inr (), emit es (emit [?l] s))"
    and p: "polled w (self s) (trace s @ [?l]) 10 es"
    using wait_from_polled [of w 0 "emit [?l] s"] by auto
  from w have r: "waitForSelenoidToBeRunning w s = (Inr (), emit (?l # es) s)"
    by (simp add: waitForSelenoidToBeRunning_def effect_defs)
  then have e: "emitted (waitForSelenoidToBeRunning w) s = ?l # es"
    by (simp add: emitted_def)
  from p have 1: "attempts (self s) (?l # es) \<le> 10" and 2: "slept (?l # es) \<le> 10000"
    by (simp_all add: polled_def attempts_def)
  from p obtain k where "k \<le> 10"
    and "actions es = concat (replicate k (round_trip (self s)))
                    @ (if k < 10 then [Exec (psArgs (self s))] else [])"
    and "k < 10 \<longrightarrow> running w (self s) (butlast ((trace s @ [?l]) @ es))"
    unfolding polled_def by blast
  then have 3: "\<exists>k\<le>10. actions (?l # es)
           = concat (replicate k [Exec (psArgs (self s)), Sleep 1000])
             @ (if k < 10 then [Exec (psArgs (self s))] else [])
         \<and> (k < 10 \<longrightarrow> running w (self s) (butlast (trace s @ ?l # es)))"
    by (intro exI [of _ k]) (simp add: actions_def round_trip_def)
  have 4: "\<forall>pre post. ?l # es = pre @ Exec (psArgs (self s)) # post
         \<and> running w (self s) (trace s @ pre) \<longrightarrow> post = []"
  proof (intro allI impI)
    fix pre post
    assume h: "?l # es = pre @ Exec (psArgs (self s)) # post \<and> running w (self s) (trace s @ pre)"
    then obtain pre' where "pre = ?l # pre'" and "es = pre' @ Exec (psArgs (self s)) # post"
      by (cases pre) auto
    with h have "es = pre' @ Exec (psArgs (self s)) # post"
      and "running w (self s) ((trace s @ [?l]) @ pre')" by auto
    with p show "post = []" unfolding polled_def by blast
  qed
  from 1 2 3 4 show ?thesis by (simp add: r e)
qed

theorem readiness_wait_bounded_witness:
  "fst (waitForSelenoidToBeRunning slow_env ci_state) = Inr ()
   \<and> actions (emitted (waitForSelenoidToBeRunning slow_env) ci_state)
       = [Exec (psArgs ci_service), Sleep 1000, Exec (psArgs ci_service), Sleep 1000,
          Exec (psArgs ci_service)]
   \<and> running slow_env ci_service
        (butlast (trace (snd (waitForSelenoidToBeRunning slow_env ci_state))))
   \<and> attempts ci_service (emitted (waitForSelenoidToBeRunning slow_env) ci_state) = 3
   \<and> slept (emitted (waitForSelenoidToBeRunning slow_env) ci_state) = 2000
   \<and> attempts ci_service (emitted (waitForSelenoidToBeRunning ci_env) ci_state) = 10
   \<and> slept (emitted (waitForSelenoidToBeRunning ci_env) ci_state) = 10000"
  using readiness_wait_bounded [of slow_env ci_state]
  by (simp add: waitForSelenoidToBeRunning_def wait_from_step running_def retry_events_def
        emitted_def effect_defs actions_def attempts_def psArgs_def
        slow_env_def ci_env_def ci_state_def ci_service_def header_def newline_def
        spread_def defaults_def ci_options_def no_options_def)

section \<open>The hooks stop at their first \<open>return\<close>\<close>

text \<open>
  C1. \<open>onPrepare\<close> behaves as its body cut after \<open>return this.startSelenoid()\<close>: for
  every configuration, host and history it produces no event of the readiness wait (no
  announcement, no \<open>docker ps\<close>, no sleep) and none of the UI start (no announcement,
  no \<open>docker run\<close> of the UI). \<open>onComplete\<close> behaves as its body cut after
  \<open>return this.stopSelenoid()\<close>: what it does is the gateway stop and nothing else.
  Such events are how the trailing steps would show: the readiness wait and the UI start,
  run on their own, each produce one at once.
\<close>

theorem trailing_steps_unreachable:
  "onPrepare w s =
     async (block
       [await_stmt (stopSelenoid w),
        await_stmt (stopSelenoidUi w),
        await_stmt (verifySelenoidBrowserConfig w),
        if_stmt (\<lambda>s. \<not> truthy (skipAutoPullImages (options (self s))))
          (block
             [await_stmt (pullRequiredBrowserFiles w),
              await_stmt (pullRequiredSelenoidUiVersion w),
              await_stmt (pullRequiredSelenoidVersion w)]),
        return_stmt (startSelenoid w)]) s
   \<and> list_all (\<lambda>e. \<not> trailing_event (self s) e) (emitted (onPrepare w) s)
   \<and> onComplete w s = async (block [return_stmt (stopSelenoid w)]) s
   \<and> emitted (onComplete w) s =
       [Log LogInfo ''Stopping any running selenoid containers'',
        Exec [Some ''rm'', Some ''-f'', selenoidContainerName (options (self s))]]
   \<and> trailing_event (self s) (hd (emitted (waitForSelenoidToBeRunning w) s))
   \<and> emitted (startSelenoidUi w) s =
       [Log LogInfo ''Starting Selenoid-Ui Container'', Exec (startArgsUi (self s))]"
proof -
  obtain es where q: "list_all (\<lambda>e. \<not> trailing_event (self s) e) es"
    and "\<exists>r fs. onPrepare w s = (r, emit fs s)
           \<and> (fs = stop_events (self s) @ [missing_config_event (self s)]
               \<or> fs = (stop_events (self s)
                  @ (if pathExists w (selenoidBrowsersConfigPath (self s)) then []
                     else [missing_config_event (self s)])
                  @ es) @ start_events w (self s))"
    using onPrepare_shape [of "self s" s w] by (auto simp: Let_def split: if_splits)
  then obtain r fs where "onPrepare w s = (r, emit fs s)"
    and "list_all (\<lambda>e. \<not> trailing_event (self s) e) fs"
    by (auto simp: stop_events_def missing_config_event_def start_events_def
          psArgs_def startArgsUi_def startArgs_def)
  then have 1: "list_all (\<lambda>e. \<not> trailing_event (self s) e) (emitted (onPrepare w) s)"
    by (simp add: emitted_def)
  obtain v where "stopSelenoid w s = (Inr v, emit [Log LogInfo ''Stopping any running selenoid containers'',
        Exec [Some ''rm'', Some ''-f'', selenoidContainerName (options (self s))]] s)"
    using stopSelenoid_eq by blast
  then have 2: "emitted (onComplete w) s =
       [Log LogInfo ''Stopping any running selenoid containers'',
        Exec [Some ''rm'', Some ''-f'', selenoidContainerName (options (self s))]]"
    by (simp add: onComplete_cut emitted_def async_def return_stmt_def)
  obtain ws where "wait_from w 0 (emit [Log LogInfo ''Waiting for Selenoid to be Running''] s)
      = (Inr (), emit ws (emit [Log LogInfo ''Waiting for Selenoid to be Running''] s))"
    using wait_from_polled by blast
  then have 3: "trailing_event (self s) (hd (emitted (waitForSelenoidToBeRunning w) s))"
    by (simp add: waitForSelenoidToBeRunning_def effect_defs emitted_def)
  have 4: "emitted (startSelenoidUi w) s =
       [Log LogInfo ''Starting Selenoid-Ui Container'', Exec (startArgsUi (self s))]"
    by (simp add: startSelenoidUi_def effect_defs emitted_def Let_def split: sum.split)
  from 1 2 3 4 show ?thesis using onPrepare_cut onComplete_cut by blast
qed

section \<open>The image check\<close>

text \<open>
  C5. \<open>doesImageExist\<close> lists the image. When the listing succeeds it answers whether
  the output, split at newlines, has two pieces or more (one more piece than newlines:
  more than the header row). When the listing fails it answers \<open>true\<close> and its last
  event is the error, logged. It never rejects.
\<close>

theorem doesImageExist_answer:
  "(case execa w (trace s @ [Log LogDebug (''Checking image '' @ imageName @ '' exists'')])
           (listArgs imageName) of
      Inr out \<Rightarrow>
        fst (doesImageExist w imageName s) = Inr (2 \<le> length (split_nl out))
        \<and> length (split_nl out) = Suc (count_list out newline)
    | Inl err \<Rightarrow>
        fst (doesImageExist w imageName s) = Inr True
        \<and> last (emitted (doesImageExist w imageName) s) = Log LogError err)
   \<and> \<not> isl (fst (doesImageExist w imageName s))
   \<and> Exec (listArgs imageName) \<in> set (emitted (doesImageExist w imageName) s)"
  by (simp add: doesImageExist_eq listArgs_def emitted_def split_nl_length split: sum.split)

theorem doesImageExist_answer_witness:
  "fst (doesImageExist chrome_env ''selenoid/chrome:91.0'' ci_state) = Inr True
   \<and> fst (doesImageExist chrome_env ''selenoid/firefox:89.0'' ci_state) = Inr False
   \<and> fst (doesImageExist broken_env ''selenoid/firefox:89.0'' ci_state) = Inr True
   \<and> last (emitted (doesImageExist broken_env ''selenoid/firefox:89.0'') ci_state)
       = Log LogError ''Cannot connect to the Docker daemon''"
  using doesImageExist_answer [where w = chrome_env and s = ci_state and imageName = "''selenoid/chrome:91.0''"]
    doesImageExist_answer [where w = chrome_env and s = ci_state and imageName = "''selenoid/firefox:89.0''"]
    doesImageExist_answer [where w = broken_env and s = ci_state and imageName = "''selenoid/firefox:89.0''"]
  by (simp add: chrome_env_def broken_env_def offline_env_def ci_defs listArgs_def)

section \<open>Skipping the pulls\<close>

text \<open>
  C7. When \<open>skipAutoPullImages\<close> is \<open>true\<close>, no event of \<open>onPrepare\<close> is a
  \<open>docker pull\<close>, whatever the host answers. The defaults give the option no value, and
  without a value given it is not truthy: by default pulls are not skipped.
\<close>

theorem skip_pulls_issues_no_pull:
  "(truthy (skipAutoPullImages (options (self s)))
      \<longrightarrow> list_all (\<lambda>e. \<not> is_pull e) (emitted (onPrepare w) s))
   \<and> skipAutoPullImages defaults = None
   \<and> \<not> truthy (skipAutoPullImages
                  (spread defaults (serviceOptions\<lparr>skipAutoPullImages := None\<rparr>)))"
proof -
  have "list_all (\<lambda>e. \<not> is_pull e) (emitted (onPrepare w) s)"
    if t: "truthy (skipAutoPullImages (options (self s)))"
  proof (cases "pathExists w (selenoidBrowsersConfigPath (self s))
           \<or> terminateWdioOnError (options (self s)) \<noteq> Some True")
    case True
    then obtain r where "onPrepare w s =
        (r, emit ((stop_events (self s)
                  @ (if pathExists w (selenoidBrowsersConfigPath (self s)) then []
                     else [missing_config_event (self s)])
                  @ []) @ start_events w (self s)) s)"
      using onPrepare_started [of w s] t by auto
    then show ?thesis
      by (simp add: emitted_def stop_events_def missing_config_event_def start_events_def
            startArgs_def)
  next
    case False
    then show ?thesis
      by (simp add: onPrepare_refused emitted_def stop_events_def missing_config_event_def)
  qed
  then show ?thesis by (simp add: defaults_def spread_def)
qed

theorem skip_pulls_issues_no_pull_witness:
  "truthy (skipAutoPullImages (options (self skipping_state)))
   \<and> emitted (onPrepare offline_env) skipping_state
       = stop_events ci_service @ start_events offline_env ci_service
   \<and> list_all (\<lambda>e. \<not> is_pull e) (emitted (onPrepare offline_env) skipping_state)
   \<and> \<not> truthy (skipAutoPullImages (options (self ci_state)))
   \<and> Exec (pullArgs ''selenoid/chrome:91.0'') \<in> set (emitted (onPrepare offline_env) ci_state)"
  using skip_pulls_issues_no_pull [of skipping_state offline_env]
  by (simp add: onPrepare_cut run_defs skipping_state_def offline_env_def ci_defs two_browsers_def
        stop_events_def start_events_def)

section \<open>The option \<open>skipAutoPullImage\<close>\<close>

lemma trace_set_singular [simp]: "trace (set_singular b s) = trace s"
  by (simp add: set_singular_def)

lemma emit_set_singular [simp]: "emit es (set_singular b s) = set_singular b (emit es s)"
  by (simp add: set_singular_def emit_def)

lemma options_set_singular [simp]:
  "options (self (set_singular b s)) = (options (self s))\<lparr>skipAutoPullImage := b\<rparr>"
  by (simp add: set_singular_def)

lemma path_set_singular [simp]:
  "selenoidBrowsersConfigPath (self (set_singular b s)) = selenoidBrowsersConfigPath (self s)"
  by (simp add: set_singular_def)

lemma startArgs_set_singular [simp]:
  "startArgs w (self (set_singular b s)) = startArgs w (self s)"
  by (simp add: startArgs_def) (simp add: set_singular_def)

lemma unaffected_stopSelenoid: "unaffected b (stopSelenoid w)"
  by (simp add: unaffected_def stopSelenoid_def effect_defs Let_def split: sum.split)

lemma unaffected_stopSelenoidUi: "unaffected b (stopSelenoidUi w)"
  by (simp add: unaffected_def stopSelenoidUi_def effect_defs Let_def split: sum.split)

lemma unaffected_verify: "unaffected b (verifySelenoidBrowserConfig w)"
  by (simp add: unaffected_def verify_eq)

lemma unaffected_doesImageExist: "unaffected b (doesImageExist w img)"
  by (simp add: unaffected_def doesImageExist_eq split: sum.split)

lemma unaffected_pull_each: "unaffected b (pull_each w imgs)"
  unfolding unaffected_def
proof (induction imgs)
  case Nil
  show ?case by simp
next
  case (Cons img imgs)
  show ?case
  proof
    fix s
    from Cons show "pull_each w (img # imgs) (set_singular b s)
        = (case pull_each w (img # imgs) s of (r, s1) \<Rightarrow> (r, set_singular b s1))"
      by (simp add: doesImageExist_eq effect_defs split: sum.split prod.split)
  qed
qed

lemma unaffected_pullRequiredBrowserFiles: "unaffected b (pullRequiredBrowserFiles w)"
proof -
  have p: "\<And>imgs s. pull_each w imgs (set_singular b s)
        = (case pull_each w imgs s of (r, s1) \<Rightarrow> (r, set_singular b s1))"
    using unaffected_pull_each [of b w] by (simp add: unaffected_def)
  show ?thesis
    by (simp add: unaffected_def pullRequiredBrowserFiles_def p effect_defs
          split: sum.split prod.split)
qed

lemma unaffected_pullRequiredSelenoidUiVersion: "unaffected b (pullRequiredSelenoidUiVersion w)"
  by (simp add: unaffected_def pullRequiredSelenoidUiVersion_def doesImageExist_eq effect_defs
        Let_def split: sum.split)

lemma unaffected_pullRequiredSelenoidVersion: "unaffected b (pullRequiredSelenoidVersion w)"
  by (simp add: unaffected_def pullRequiredSelenoidVersion_def doesImageExist_eq effect_defs
        Let_def split: sum.split)

lemma unaffected_startSelenoid: "unaffected b (startSelenoid w)"
  by (simp add: unaffected_def startSelenoid_eq start_events_def split: sum.split)

lemma unaffected_await: "unaffected b m \<Longrightarrow> unaffected b (await_stmt m)"
  by (simp add: unaffected_def await_stmt_def split: prod.split sum.split)

lemma unaffected_return: "unaffected b m \<Longrightarrow> unaffected b (return_stmt m)"
  by (simp add: unaffected_def return_stmt_def split: prod.split sum.split)

lemma unaffected_block: "list_all (unaffected b) cs \<Longrightarrow> unaffected b (block cs)"
proof (induction cs)
  case Nil
  show ?case by (simp add: unaffected_def)
next
  case (Cons c cs)
  then have c: "unaffected b c" and r: "unaffected b (block cs)" by simp_all
  show ?case
    unfolding unaffected_def
  proof
    fix s
    show "block (c # cs) (set_singular b s)
        = (case block (c # cs) s of (r, s1) \<Rightarrow> (r, set_singular b s1))"
      using c r by (simp add: unaffected_def split: prod.split completion.split)
  qed
qed

lemma unaffected_if:
  "unaffected b m \<Longrightarrow>
   unaffected b (if_stmt (\<lambda>s. \<not> truthy (skipAutoPullImages (options (self s)))) m)"
  by (simp add: unaffected_def if_stmt_def)

lemma unaffected_async: "unaffected b m \<Longrightarrow> unaffected b (async m)"
  by (simp add: unaffected_def async_def split: prod.split completion.split)

lemma unaffected_onPrepare: "unaffected b (onPrepare w)"
proof -
  have pulls: "unaffected b
     (if_stmt (\<lambda>s. \<not> truthy (skipAutoPullImages (options (self s))))
          (block
             [await_stmt (pullRequiredBrowserFiles w),
              await_stmt (pullRequiredSelenoidUiVersion w),
              await_stmt (pullRequiredSelenoidVersion w)]) :: resolved stmt)"
    by (intro unaffected_if unaffected_block)
       (simp add: unaffected_await unaffected_pullRequiredBrowserFiles
          unaffected_pullRequiredSelenoidUiVersion unaffected_pullRequiredSelenoidVersion)
  have "unaffected b (async (block
       [await_stmt (stopSelenoid w),
        await_stmt (stopSelenoidUi w),
        await_stmt (verifySelenoidBrowserConfig w),
        if_stmt (\<lambda>s. \<not> truthy (skipAutoPullImages (options (self s))))
          (block
             [await_stmt (pullRequiredBrowserFiles w),
              await_stmt (pullRequiredSelenoidUiVersion w),
              await_stmt (pullRequiredSelenoidVersion w)]),
        return_stmt (startSelenoid w)]))"
    by (intro unaffected_async unaffected_block)
       (simp add: pulls unaffected_await unaffected_return unaffected_stopSelenoid
          unaffected_stopSelenoidUi unaffected_verify unaffected_startSelenoid)
  then show ?thesis
    by (simp add: unaffected_def onPrepare_cut)
qed

lemma unaffected_onComplete: "unaffected b (onComplete w)"
proof -
  have "unaffected b (async (block [return_stmt (stopSelenoid w)]))"
    by (intro unaffected_async unaffected_block)
       (simp add: unaffected_return unaffected_stopSelenoid)
  then show ?thesis
    by (simp add: unaffected_def onComplete_cut)
qed

lemma run_hook_unaffected:
  assumes "\<And>b. unaffected b (hook w)"
  shows "run_hook hook w (serviceOptions\<lparr>skipAutoPullImage := b\<rparr>) history
           = run_hook hook w serviceOptions history"
proof (cases "constructor w serviceOptions")
  case (Inl e)
  then show ?thesis
    by (auto simp: run_hook_def constructor_def spread_def Let_def split: option.splits if_splits)
next
  case (Inr this)
  then have "constructor w (serviceOptions\<lparr>skipAutoPullImage := b\<rparr>)
      = Inr (this\<lparr>options := (options this)\<lparr>skipAutoPullImage := over (Some False) b\<rparr>\<rparr>)"
    by (auto simp: constructor_def spread_def defaults_def Let_def split: option.splits if_splits)
  moreover have "\<lparr>self = this\<lparr>options := (options this)\<lparr>skipAutoPullImage := over (Some False) b\<rparr>\<rparr>,
                  trace = history\<rparr>
      = set_singular (over (Some False) b) \<lparr>self = this, trace = history\<rparr>"
    by (simp add: set_singular_def)
  ultimately show ?thesis
    using Inr assms [of "over (Some False) b"]
    by (simp add: run_hook_def unaffected_def split: prod.split)
qed

text \<open>
  C10. Two option objects that differ in \<open>skipAutoPullImage\<close> alone give the same
  result and the same events, for \<open>onPrepare\<close> and for \<open>onComplete\<close>, on every host and
  after every history. Its default is \<open>false\<close>; \<open>skipAutoPullImages\<close> has none, and it
  is the one that decides: on the host where no browser image is present, \<open>onPrepare\<close>
  issues no pull with it set and a pull without it.
\<close>

theorem skipAutoPullImage_ignored:
  "run_hook onPrepare w (serviceOptions\<lparr>skipAutoPullImage := b\<rparr>) history
     = run_hook onPrepare w serviceOptions history
   \<and> run_hook onComplete w (serviceOptions\<lparr>skipAutoPullImage := b\<rparr>) history
     = run_hook onComplete w serviceOptions history
   \<and> skipAutoPullImage defaults = Some False
   \<and> skipAutoPullImages defaults = None
   \<and> list_all (\<lambda>e. \<not> is_pull e)
        (snd (run_hook onPrepare offline_env (ci_options\<lparr>skipAutoPullImages := Some True\<rparr>) []))
   \<and> \<not> list_all (\<lambda>e. \<not> is_pull e) (snd (run_hook onPrepare offline_env ci_options []))"
proof -
  have c: "constructor offline_env (ci_options\<lparr>skipAutoPullImages := Some True\<rparr>)
             = Inr (self skipping_state)"
    "constructor offline_env ci_options = Inr ci_service"
    by (simp_all add: constructor_def skipping_state_def offline_env_def ci_defs)
  have "list_all (\<lambda>e. \<not> is_pull e)
        (snd (run_hook onPrepare offline_env (ci_options\<lparr>skipAutoPullImages := Some True\<rparr>) []))"
    by (simp add: run_hook_def c split: prod.split)
       (simp add: onPrepare_cut run_defs skipping_state_def offline_env_def ci_defs)
  moreover have "\<not> list_all (\<lambda>e. \<not> is_pull e) (snd (run_hook onPrepare offline_env ci_options []))"
    by (simp add: run_hook_def c split: prod.split)
       (simp add: onPrepare_cut run_defs offline_env_def ci_defs two_browsers_def)
  ultimately show ?thesis
    using run_hook_unaffected [where hook = onPrepare and w = w and serviceOptions = serviceOptions
             and b = b and history = history, OF unaffected_onPrepare]
      run_hook_unaffected [where hook = onComplete and w = w and serviceOptions = serviceOptions
             and b = b and history = history, OF unaffected_onComplete]
    by (simp add: defaults_def)
qed

section \<open>Resolving the images of the browsers file\<close>

text \<open>
  C4. The loop of \<open>pullRequiredBrowserFiles\<close> runs inside the one \<open>try\<close> of the
  function, so a rejected pull leaves the loop for the \<open>catch\<close>. On the host where no
  image is present and every pull fails, the pull of the first browser image is the last
  thing the pass does: the second image of the browsers file, absent before and after, is
  neither listed nor pulled, not one pull attempt instead of one. The passes for the UI
  image and the gateway image, whose \<open>try\<close> holds the pull alone, go on after their
  failed pull: in the same \<open>onPrepare\<close> each of the two images gets its one pull.
\<close>

theorem failed_pull_ends_browser_pass:
  "require offline_env (selenoidBrowsersConfigPath (self ci_state)) = Inr two_browsers
   \<and> browserImages two_browsers = [''selenoid/chrome:91.0'', ''selenoid/firefox:89.0'']
   \<and> \<not> listed offline_env [] ''selenoid/firefox:89.0''
   \<and> \<not> listed offline_env (trace (snd (pullRequiredBrowserFiles offline_env ci_state)))
          ''selenoid/firefox:89.0''
   \<and> fst (pullRequiredBrowserFiles offline_env ci_state) = Inr ()
   \<and> emitted (pullRequiredBrowserFiles offline_env) ci_state
       = [Log LogDebug ''Checking image selenoid/chrome:91.0 exists'',
          Exec (listArgs ''selenoid/chrome:91.0''),
          Log LogInfo ''Pulling image selenoid/chrome:91.0'',
          Exec (pullArgs ''selenoid/chrome:91.0''),
          Log LogError ''pull access denied'']
   \<and> pulls_of ''selenoid/firefox:89.0'' (emitted (pullRequiredBrowserFiles offline_env) ci_state)
       = 0
   \<and> pulls_of ''selenoid/chrome:91.0'' (emitted (onPrepare offline_env) ci_state) = 1
   \<and> pulls_of ''selenoid/firefox:89.0'' (emitted (onPrepare offline_env) ci_state) = 0
   \<and> pulls_of ''aerokube/selenoid-ui:latest-release'' (emitted (onPrepare offline_env) ci_state)
       = 1
   \<and> pulls_of ''aerokube/selenoid:latest-release'' (emitted (onPrepare offline_env) ci_state)
       = 1"
  by (simp add: onPrepare_cut run_defs listed_def pulls_of_def two_browsers_def
        offline_env_def ci_defs)

section \<open>The port of the gateway\<close>

text \<open>
  C8. The \<open>docker run\<close> of the gateway publishes \<open>4444:4444\<close>, a constant of
  \<open>startSelenoid\<close>, whatever \<open>selenoidPort\<close> is. With \<open>selenoidPort\<close> 5555 the
  constructor keeps 5555, the gateway is still published on 4444, and the UI (whose own
  \<open>docker run\<close> does take its port from the options) is pointed at port 5555 of the
  gateway.
\<close>

theorem gateway_port_mapping_constant:
  "take 6 (startArgs w this)
     = [Some ''run'', Some ''-d'', Some ''--name'', selenoidContainerName (options this),
        Some ''-p'', Some ''4444:4444'']
   \<and> map_sum id (\<lambda>this. (selenoidPort (options this), take 6 (startArgs ci_env this),
                          last (startArgsUi this)))
        (constructor ci_env port_options)
     = Inr (Some 5555,
            [Some ''run'', Some ''-d'', Some ''--name'', Some ''wdio_selenoid'',
             Some ''-p'', Some ''4444:4444''],
            Some ''http://wdio_selenoid:5555'')"
  by (simp add: startArgs_def startArgsUi_def constructor_def port_options_def ci_defs
        string_of_nat.simps)

section \<open>The path of the browsers file\<close>

text \<open>
  C9. On \<open>win32\<close> the constructor turns every backslash of the joined path into a
  slash, and \<open>replace('C', 'c')\<close> puts the first upper-case \<open>C\<close> of the path in
  lower case, wherever it stands. In \<open>D:\Code\<close> the drive letter stays \<open>D\<close> and the
  directory \<open>Code\<close> becomes \<open>code\<close>: the path stored is \<open>D:/code/browsers.json\<close>,
  not the joined path with its separators converted, \<open>D:/Code/browsers.json\<close>. In
  \<open>c:\Users\Charlie\<close> the directory \<open>Charlie\<close> becomes \<open>charlie\<close>.
\<close>

theorem win32_first_C_lowercased:
  "platform win_env = ''win32''
   \<and> path_join win_env (cwd win_env) ''browsers.json''
       = ''D:'' @ [backslash] @ ''Code'' @ [backslash] @ ''browsers.json''
   \<and> replace_backslashes (path_join win_env (cwd win_env) ''browsers.json'')
       = ''D:/Code/browsers.json''
   \<and> map_sum id selenoidBrowsersConfigPath (constructor win_env ci_options)
       = Inr ''D:/code/browsers.json''
   \<and> platform win_charlie_env = ''win32''
   \<and> path_join win_charlie_env (cwd win_charlie_env) ''browsers.json''
       = ''c:'' @ [backslash] @ ''Users'' @ [backslash] @ ''Charlie'' @ [backslash]
           @ ''browsers.json''
   \<and> replace_backslashes (path_join win_charlie_env (cwd win_charlie_env) ''browsers.json'')
       = ''c:/Users/Charlie/browsers.json''
   \<and> map_sum id selenoidBrowsersConfigPath (constructor win_charlie_env ci_options)
       = Inr ''c:/Users/charlie/browsers.json''"
  by (simp add: constructor_def win_charlie_env_def win_env_def ci_defs replace_backslashes_def
        backslash_def)

end
